theory Spec2Isabelle
  imports Complex_Main
begin

section \<open>Python values\<close>

text \<open>
  A Python \<open>str\<close> is a sequence of Unicode code points; \<open>len\<close> counts code points.
  A code point is a natural number, and \<open>ascii\<close> reads an ASCII literal.
\<close>

type_synonym ustr = "nat list"

definition ascii :: "string \<Rightarrow> ustr" where
  "ascii s = map of_char s"

text \<open>
  A \<open>float\<close> is an IEEE 754 double: a finite one is the rational number it denotes (the
  two zeros are one value here), the others are the infinities and the NaN, which
  \<open>json.loads\<close> reads too.
\<close>

datatype pyfloat = Finite rat | PosInf | NegInf | NaN

text \<open>
  The values the client receives are decoded JSON documents. A \<open>dict\<close> keeps its
  insertion order, so it is an association list; a lookup takes the first entry of a key
  (a decoded document has each key once).
\<close>

datatype json =
    JNull
  | JBool bool
  | JInt int
  | JFloat pyfloat
  | JStr ustr
  | JList "json list"
  | JObj "(ustr \<times> json) list"

text \<open>
  Every exception of this program is an instance of \<open>Exception\<close>:
  \<open>Exception msg\<close> is \<open>raise Exception(msg)\<close> of the client, the others are raised
  by the interpreter.
\<close>

datatype exn =
    Exception ustr
  | AttributeError
  | TypeError
  | KeyError
  | ZeroDivisionError
  | OverflowError

text \<open>
  What the model takes from the Python runtime as parameters: the Unicode database
  outside ASCII (\<open>str.isalnum\<close>, \<open>str.isspace\<close> on one code point, \<open>str.lower\<close> on a
  text with a non-ASCII code point), \<open>str()\<close> of a decoded value that is no string, and
  the message text of an interpreter-raised exception. The ASCII range is written out
  below.
\<close>

record runtime =
  uni_isalnum :: "nat \<Rightarrow> bool"
  uni_isspace :: "nat \<Rightarrow> bool"
  uni_lower :: "ustr \<Rightarrow> ustr"
  str_value :: "json \<Rightarrow> ustr"
  exn_text :: "exn \<Rightarrow> ustr"

fun truthy :: "json \<Rightarrow> bool" where
  "truthy JNull = False"
| "truthy (JBool b) = b"
| "truthy (JInt i) = (i \<noteq> 0)"
| "truthy (JFloat r) = (r \<noteq> Finite 0)"
| "truthy (JStr s) = (s \<noteq> [])"
| "truthy (JList xs) = (xs \<noteq> [])"
| "truthy (JObj kvs) = (kvs \<noteq> [])"

text \<open>\<open>d.get(k, default)\<close> on a dict.\<close>

definition dict_get :: "(ustr \<times> json) list \<Rightarrow> ustr \<Rightarrow> json \<Rightarrow> json" where
  "dict_get d k dflt = (case map_of d k of None \<Rightarrow> dflt | Some v \<Rightarrow> v)"

text \<open>\<open>x.get(k, default)\<close> on any value: only a dict has the attribute \<open>get\<close>.\<close>

fun py_get :: "json \<Rightarrow> ustr \<Rightarrow> json \<Rightarrow> exn + json" where
  "py_get (JObj d) k dflt = Inr (dict_get d k dflt)"
| "py_get _ k dflt = Inl AttributeError"

text \<open>\<open>x[k]\<close> with a string key: a missing key of a dict raises \<open>KeyError\<close>, a list or a
  string takes no string index, the other values are not subscriptable.\<close>

fun py_getitem :: "json \<Rightarrow> ustr \<Rightarrow> exn + json" where
  "py_getitem (JObj d) k = (case map_of d k of None \<Rightarrow> Inl KeyError | Some v \<Rightarrow> Inr v)"
| "py_getitem _ k = Inl TypeError"

text \<open>\<open>for x in v\<close>: a list gives its items, a dict its keys, a string its characters;
  the other values are not iterable.\<close>

fun py_iter :: "json \<Rightarrow> exn + json list" where
  "py_iter (JList xs) = Inr xs"
| "py_iter (JObj d) = Inr (map (\<lambda>kv. JStr (fst kv)) d)"
| "py_iter (JStr s) = Inr (map (\<lambda>c. JStr [c]) s)"
| "py_iter _ = Inl TypeError"

fun is_substring :: "ustr \<Rightarrow> ustr \<Rightarrow> bool" where
  "is_substring k [] = (k = [])"
| "is_substring k (c # cs) = (take (length k) (c # cs) = k \<or> is_substring k cs)"

text \<open>\<open>k in v\<close> for a string \<open>k\<close>: key membership in a dict, substring test in a string,
  item membership in a list.\<close>

fun py_contains :: "ustr \<Rightarrow> json \<Rightarrow> exn + bool" where
  "py_contains k (JObj d) = Inr (map_of d k \<noteq> None)"
| "py_contains k (JStr s) = Inr (is_substring k s)"
| "py_contains k (JList xs) = Inr (JStr k \<in> set xs)"
| "py_contains k _ = Inl TypeError"

text \<open>\<open>str(v)\<close> of a decoded value, as an f-string formats it.\<close>

fun py_str :: "runtime \<Rightarrow> json \<Rightarrow> ustr" where
  "py_str rt (JStr s) = s"
| "py_str rt v = str_value rt v"

text \<open>\<open>str(e)\<close> of a caught exception.\<close>

fun str_exn :: "runtime \<Rightarrow> exn \<Rightarrow> ustr" where
  "str_exn rt (Exception msg) = msg"
| "str_exn rt e = exn_text rt e"

section \<open>Characters\<close>

definition ascii_isspace :: "nat \<Rightarrow> bool" where
  "ascii_isspace c = ((9 \<le> c \<and> c \<le> 13) \<or> (28 \<le> c \<and> c \<le> 32))"

definition ascii_isalnum :: "nat \<Rightarrow> bool" where
  "ascii_isalnum c = ((48 \<le> c \<and> c \<le> 57) \<or> (65 \<le> c \<and> c \<le> 90) \<or> (97 \<le> c \<and> c \<le> 122))"

definition ascii_lower :: "nat \<Rightarrow> nat" where
  "ascii_lower c = (if 65 \<le> c \<and> c \<le> 90 then c + 32 else c)"

text \<open>The class \<open>\s\<close> of \<open>re\<close>, which is also what \<open>str.split()\<close> splits on.\<close>

definition isspace :: "runtime \<Rightarrow> nat \<Rightarrow> bool" where
  "isspace rt c = (if c < 128 then ascii_isspace c else uni_isspace rt c)"

text \<open>\<open>str.isalnum\<close> on one character.\<close>

definition isalnum :: "runtime \<Rightarrow> nat \<Rightarrow> bool" where
  "isalnum rt c = (if c < 128 then ascii_isalnum c else uni_isalnum rt c)"

text \<open>The class \<open>\w\<close> of \<open>re\<close>: alphanumeric or the underscore.\<close>

definition isword :: "runtime \<Rightarrow> nat \<Rightarrow> bool" where
  "isword rt c = (isalnum rt c \<or> c = 95)"

text \<open>The range \<open>U+AC00-U+D7A3\<close> of the pattern: the Hangul syllables.\<close>

definition hangul :: "nat \<Rightarrow> bool" where
  "hangul c = (0xAC00 \<le> c \<and> c \<le> 0xD7A3)"

definition lower :: "runtime \<Rightarrow> ustr \<Rightarrow> ustr" where
  "lower rt s = (if list_all (\<lambda>c. c < 128) s then map ascii_lower s else uni_lower rt s)"

section \<open>The tokenizer\<close>

text \<open>\<open>re.sub(r'[^\w\s<U+AC00>-<U+D7A3>]', ' ', text)\<close>: the class matches one character,
  so each matching character becomes a space.\<close>

definition sub_other :: "runtime \<Rightarrow> ustr \<Rightarrow> ustr" where
  "sub_other rt s = map (\<lambda>c. if \<not> isword rt c \<and> \<not> isspace rt c \<and> \<not> hangul c then 32 else c) s"

text \<open>\<open>re.sub(r'\s+', ' ', text)\<close>: each maximal run of whitespace becomes one space.
  The flag says that the run the character belongs to has been replaced already.\<close>

fun sub_spaces :: "runtime \<Rightarrow> bool \<Rightarrow> ustr \<Rightarrow> ustr" where
  "sub_spaces rt in_run [] = []"
| "sub_spaces rt in_run (c # cs) =
     (if isspace rt c then (if in_run then sub_spaces rt True cs else 32 # sub_spaces rt True cs)
      else c # sub_spaces rt False cs)"

text \<open>\<open>text.split()\<close>: the maximal runs of characters that are not whitespace;
  \<open>cur\<close> is the run being read.\<close>

fun str_split :: "runtime \<Rightarrow> ustr \<Rightarrow> ustr \<Rightarrow> ustr list" where
  "str_split rt cur [] = (if cur = [] then [] else [cur])"
| "str_split rt cur (c # cs) =
     (if isspace rt c then (if cur = [] then str_split rt [] cs else cur # str_split rt [] cs)
      else str_split rt (cur @ [c]) cs)"

definition stop_words :: "ustr set" where
  "stop_words =
    {[0xC758], [0xAC00], [0xC774], [0xC740], [0xB294], [0xC744], [0xB97C], [0xC5D0],
     [0xC5D0, 0xC11C], [0xC73C, 0xB85C], [0xB85C],
     [0xACFC], [0xC640], [0xD55C], [0xD558, 0xB294], [0xD558, 0xACE0], [0xD574, 0xC11C],
     [0xD558, 0xC5EC], [0xD558, 0xBA74], [0xB429, 0xB2C8, 0xB2E4],
     [0xC788, 0xC2B5, 0xB2C8, 0xB2E4], [0xC785, 0xB2C8, 0xB2E4], [0xADF8], [0xADF8, 0xB7F0],
     [0xC774, 0xB7F0], [0xC800, 0xB7F0], [0xAC83], [0xC218], [0xB4F1],
     ascii ''the'', ascii ''a'', ascii ''an'', ascii ''and'', ascii ''or'', ascii ''but'',
     ascii ''in'', ascii ''on'', ascii ''at'', ascii ''to'',
     ascii ''for'', ascii ''of'', ascii ''with'', ascii ''by'', ascii ''is'', ascii ''are'',
     ascii ''was'', ascii ''were'', ascii ''be'',
     ascii ''been'', ascii ''have'', ascii ''has'', ascii ''had'', ascii ''do'',
     ascii ''does'', ascii ''did'', ascii ''will'',
     ascii ''would'', ascii ''could'', ascii ''should'', ascii ''may'', ascii ''might'',
     ascii ''can'', ascii ''this'',
     ascii ''that'', ascii ''these'', ascii ''those'', ascii ''i'', ascii ''you'',
     ascii ''he'', ascii ''she'', ascii ''it'',
     ascii ''we'', ascii ''they'', ascii ''me'', ascii ''him'', ascii ''her'', ascii ''us'',
     ascii ''them''}"

text \<open>The variable \<open>words\<close> of \<open>_extract_words_from_text\<close>, for a string that is not
  empty: the two substitutions, \<open>lower()\<close> and \<open>split()\<close>.\<close>

definition words_of :: "runtime \<Rightarrow> ustr \<Rightarrow> ustr list" where
  "words_of rt text = str_split rt [] (lower rt (sub_spaces rt False (sub_other rt text)))"

definition keep_word :: "ustr \<Rightarrow> bool" where
  "keep_word word = (length word \<ge> 2 \<and> word \<notin> stop_words)"

text \<open>\<open>_extract_words_from_text\<close> on a string.\<close>

definition extract_words_str :: "runtime \<Rightarrow> ustr \<Rightarrow> ustr list" where
  "extract_words_str rt text = (if text = [] then [] else filter keep_word (words_of rt text))"

text \<open>\<open>_extract_words_from_text\<close> on whatever the message holds under \<open>text\<close>: a falsy
  value gives no word, and \<open>re.sub\<close> takes a string only.\<close>

definition extract_words_from_text :: "runtime \<Rightarrow> json \<Rightarrow> exn + ustr list" where
  "extract_words_from_text rt text =
     (if \<not> truthy text then Inr []
      else case text of JStr s \<Rightarrow> Inr (extract_words_str rt s) | _ \<Rightarrow> Inl TypeError)"

section \<open>Floating point\<close>

text \<open>
  Every operation on doubles computes the exact result and rounds it to the nearest
  double, ties to the even significand, as the hardware does.
\<close>

fun bit_length :: "nat \<Rightarrow> nat" where
  "bit_length n = (if n = 0 then 0 else Suc (bit_length (n div 2)))"

declare bit_length.simps [simp del]

text \<open>For \<open>x > 0\<close>, the exponent \<open>e\<close> with \<open>2 ^ e \<le> x < 2 ^ (e + 1)\<close>.\<close>

definition binexp :: "rat \<Rightarrow> int" where
  "binexp x = (if 1 \<le> x then int (bit_length (nat \<lfloor>x\<rfloor>)) - 1
               else - int (bit_length (nat (\<lceil>1 / x\<rceil> - 1))))"

definition pow2 :: "int \<Rightarrow> rat" where
  "pow2 k = (if 0 \<le> k then 2 ^ nat k else 1 / 2 ^ nat (- k))"

definition round_half_even :: "rat \<Rightarrow> int" where
  "round_half_even x =
     (let f = \<lfloor>x\<rfloor>; d = x - of_int f
      in if d < 1 / 2 then f else if 1 / 2 < d then f + 1 else if even f then f else f + 1)"

text \<open>The exact value rounded to a significand of 53 bits; below \<open>2 ^ -1022\<close> the
  spacing stays \<open>2 ^ -1074\<close> (subnormal numbers).\<close>

definition to_double :: "rat \<Rightarrow> rat" where
  "to_double x =
     (if x = 0 then 0
      else let a = \<bar>x\<bar>; sh = max (binexp a - 52) (- 1074)
           in sgn x * of_int (round_half_even (a / pow2 sh)) * pow2 sh)"

definition too_large :: "rat \<Rightarrow> bool" where
  "too_large x = (2 ^ 1024 \<le> \<bar>x\<bar>)"

text \<open>\<open>a / b\<close> on two \<open>int\<close>: the correctly rounded quotient.\<close>

definition py_truediv :: "int \<Rightarrow> int \<Rightarrow> exn + pyfloat" where
  "py_truediv a b =
     (if b = 0 then Inl ZeroDivisionError
      else let q = to_double (of_int a / of_int b)
           in if too_large q then Inl OverflowError else Inr (Finite q))"

text \<open>\<open>x * k\<close> for a float \<open>x\<close> and an \<open>int\<close> \<open>k\<close> that a double holds exactly, \<open>k > 0\<close>.\<close>

fun float_mul_int :: "pyfloat \<Rightarrow> int \<Rightarrow> pyfloat" where
  "float_mul_int (Finite x) k =
     (let p = to_double (x * of_int k)
      in if too_large p then (if 0 < p then PosInf else NegInf) else Finite p)"
| "float_mul_int PosInf k = PosInf"
| "float_mul_int NegInf k = NegInf"
| "float_mul_int NaN k = NaN"

text \<open>\<open>round(x, 2)\<close>: the exact value of the double is rounded to two decimals, ties to
  even, and the decimal is read back as the nearest double.\<close>

fun py_round2 :: "pyfloat \<Rightarrow> pyfloat" where
  "py_round2 (Finite x) = Finite (to_double (of_int (round_half_even (x * 100)) / 100))"
| "py_round2 PosInf = PosInf"
| "py_round2 NegInf = NegInf"
| "py_round2 NaN = NaN"

section \<open>Counting\<close>

text \<open>\<open>Counter(words)\<close>: a dict from word to count, the keys in the order of their first
  appearance.\<close>

fun counter_add :: "(ustr \<times> int) list \<Rightarrow> ustr \<Rightarrow> (ustr \<times> int) list" where
  "counter_add [] w = [(w, 1)]"
| "counter_add ((k, n) # kvs) w =
     (if k = w then (k, n + 1) # kvs else (k, n) # counter_add kvs w)"

definition Counter :: "ustr list \<Rightarrow> (ustr \<times> int) list" where
  "Counter ws = foldl counter_add [] ws"

text \<open>\<open>most_common()\<close> is \<open>sorted(items, key=itemgetter(1), reverse=True)\<close>: descending
  by count, and stable, so equal counts keep the order of the dict.\<close>

definition most_common :: "(ustr \<times> int) list \<Rightarrow> (ustr \<times> int) list" where
  "most_common c = sort_key (\<lambda>kv. - snd kv) c"

section \<open>Control flow\<close>

text \<open>A statement after one that raised does not run.\<close>

definition and_then :: "exn + 'a \<Rightarrow> ('a \<Rightarrow> exn + 'b) \<Rightarrow> exn + 'b" where
  "and_then r f = (case r of Inl e \<Rightarrow> Inl e | Inr v \<Rightarrow> f v)"

text \<open>\<open>try: ... except Exception as e: return handler(e)\<close>. Every \<open>exn\<close> is an instance
  of \<open>Exception\<close>, so the clause catches it.\<close>

definition try_except :: "exn + json \<Rightarrow> (exn \<Rightarrow> json) \<Rightarrow> exn + json" where
  "try_except body handler = (case body of Inl e \<Rightarrow> Inr (handler e) | Inr v \<Rightarrow> Inr v)"

section \<open>The remote service\<close>

text \<open>
  \<open>Get url headers params\<close> is \<open>requests.get(url, headers=headers, params=params)\<close> and
  \<open>Post url headers body\<close> is \<open>requests.post(url, headers=headers, json=body)\<close>.
\<close>

datatype request =
    Get ustr "(ustr \<times> ustr) list" "(ustr \<times> json) list option"
  | Post ustr "(ustr \<times> ustr) list" "(ustr \<times> json) list option"

text \<open>
  What comes back from \<open>requests\<close>, \<open>raise_for_status()\<close> and \<open>response.json()\<close>:
  a \<open>RequestException\<close> or a \<open>JSONDecodeError\<close> with its \<open>str()\<close>, another exception,
  which neither \<open>except\<close> clause of \<open>_make_request\<close> catches, or the decoded body.
\<close>

datatype response =
    RequestException ustr
  | JSONDecodeError ustr
  | Raised exn
  | Body json

text \<open>
  The network: \<open>reply\<close> is the answer of the remote side to a request, given the requests
  sent before it, and \<open>sent\<close> records the requests sent so far, the oldest first.
\<close>

record net =
  reply :: "request list \<Rightarrow> request \<Rightarrow> response"
  sent :: "request list"

section \<open>The API client\<close>

record SlackAPIClient =
  bot_token :: ustr
  base_url :: ustr
  headers :: "(ustr \<times> ustr) list"

definition SlackAPIClient_init :: "ustr \<Rightarrow> SlackAPIClient" where
  "SlackAPIClient_init token =
     \<lparr>bot_token = token,
      base_url = ascii ''https://slack.com/api'',
      headers = [(ascii ''Authorization'', ascii ''Bearer '' @ token),
                 (ascii ''Content-Type'', ascii ''application/json; charset=utf-8'')]\<rparr>"

text \<open>The message texts of the source, as code points.\<close>

definition api_error_prefix :: ustr where
  "api_error_prefix =
     [83, 108, 97, 99, 107, 32, 65, 80, 73, 32, 0xC624, 0xB958, 58, 32]"

definition http_failed_prefix :: ustr where
  "http_failed_prefix =
     [72, 84, 84, 80, 32, 0xC694, 0xCCAD, 32, 0xC2E4, 0xD328, 58, 32]"

definition json_failed_prefix :: ustr where
  "json_failed_prefix =
     [74, 83, 79, 78, 32, 0xD30C, 0xC2F1, 32, 0xC2E4, 0xD328, 58, 32]"

definition analysis_failed_prefix :: ustr where
  "analysis_failed_prefix =
     [0xB2E8, 0xC5B4, 32, 0xBD84, 0xC11D, 32, 0xC2E4, 0xD328, 58, 32]"

definition message_sent_text :: ustr where
  "message_sent_text =
     [0xBA54, 0xC2DC, 0xC9C0, 0xAC00, 32, 0xC131, 0xACF5, 0xC801, 0xC73C, 0xB85C, 32,
     0xC804, 0xC1A1, 0xB418, 0xC5C8, 0xC2B5, 0xB2C8, 0xB2E4, 46]"

definition send_failed_prefix :: ustr where
  "send_failed_prefix =
     [0xBA54, 0xC2DC, 0xC9C0, 32, 0xC804, 0xC1A1, 32, 0xC2E4, 0xD328, 58, 32]"

definition channels_failed_prefix :: ustr where
  "channels_failed_prefix =
     [0xCC44, 0xB110, 32, 0xBAA9, 0xB85D, 32, 0xC870, 0xD68C, 32, 0xC2E4, 0xD328, 58,
     32]"

definition history_failed_prefix :: ustr where
  "history_failed_prefix =
     [0xBA54, 0xC2DC, 0xC9C0, 32, 0xD788, 0xC2A4, 0xD1A0, 0xB9AC, 32, 0xC870, 0xD68C, 32,
     0xC2E4, 0xD328, 58, 32]"

definition dm_sent_text :: ustr where
  "dm_sent_text =
     [0xB2E4, 0xC774, 0xB809, 0xD2B8, 32, 0xBA54, 0xC2DC, 0xC9C0, 0xAC00, 32, 0xC131,
     0xACF5, 0xC801, 0xC73C, 0xB85C, 32, 0xC804, 0xC1A1, 0xB418, 0xC5C8, 0xC2B5, 0xB2C8,
     0xB2E4, 46]"

definition dm_failed_prefix :: ustr where
  "dm_failed_prefix =
     [0xB2E4, 0xC774, 0xB809, 0xD2B8, 32, 0xBA54, 0xC2DC, 0xC9C0, 32, 0xC804, 0xC1A1, 32,
     0xC2E4, 0xD328, 58, 32]"

definition users_failed_prefix :: ustr where
  "users_failed_prefix =
     [0xC0AC, 0xC6A9, 0xC790, 32, 0xBAA9, 0xB85D, 32, 0xC870, 0xD68C, 32, 0xC2E4, 0xD328,
     58, 32]"

definition make_request ::
  "runtime \<Rightarrow> SlackAPIClient \<Rightarrow> ustr \<Rightarrow> ustr \<Rightarrow> (ustr \<times> json) list option \<Rightarrow> net
     \<Rightarrow> (exn + json) \<times> net" where
  "make_request rt self endpoint method data n =
     (let url = base_url self @ ascii ''/'' @ endpoint;
          req = (if method = ascii ''GET'' then Get url (headers self) data
                 else Post url (headers self) data)
      in (case reply n (sent n) req of
            RequestException msg \<Rightarrow> Inl (Exception (http_failed_prefix @ msg))
          | JSONDecodeError msg \<Rightarrow> Inl (Exception (json_failed_prefix @ msg))
          | Raised e \<Rightarrow> Inl e
          | Body result \<Rightarrow>
              and_then (py_get result (ascii ''ok'') (JBool False)) (\<lambda>ok.
                if \<not> truthy ok then
                  and_then (py_get result (ascii ''error'') (JStr (ascii ''Unknown error'')))
                    (\<lambda>error_msg. Inl (Exception (api_error_prefix @ py_str rt error_msg)))
                else Inr result),
          n\<lparr>sent := sent n @ [req]\<rparr>))"

text \<open>The rest of a method after its request: it runs on the result, the network
  stays as the request left it.\<close>

definition returning :: "(exn + 'a) \<times> net \<Rightarrow> ('a \<Rightarrow> exn + 'b) \<Rightarrow> (exn + 'b) \<times> net" where
  "returning rn f = (and_then (fst rn) f, snd rn)"

definition send_message ::
  "runtime \<Rightarrow> SlackAPIClient \<Rightarrow> json \<Rightarrow> ustr \<Rightarrow> net \<Rightarrow> (exn + json) \<times> net" where
  "send_message rt self channel text n =
     (let data = [(ascii ''channel'', channel), (ascii ''text'', JStr text)]
      in make_request rt self (ascii ''chat.postMessage'') (ascii ''POST'') (Some data) n)"

definition get_channels ::
  "runtime \<Rightarrow> SlackAPIClient \<Rightarrow> net \<Rightarrow> (exn + json) \<times> net" where
  "get_channels rt self n =
     (let data = [(ascii ''types'', JStr (ascii ''public_channel,private_channel'')),
                  (ascii ''exclude_archived'', JBool True)]
      in returning (make_request rt self (ascii ''conversations.list'') (ascii ''GET'') (Some data) n)
           (\<lambda>result. py_get result (ascii ''channels'') (JList [])))"

definition get_channel_history ::
  "runtime \<Rightarrow> SlackAPIClient \<Rightarrow> ustr \<Rightarrow> int \<Rightarrow> net \<Rightarrow> (exn + json) \<times> net" where
  "get_channel_history rt self channel_id limit n =
     (let limit = (if limit > 100 then 100 else limit);
          data = [(ascii ''channel'', JStr channel_id), (ascii ''limit'', JInt limit)]
      in returning
           (make_request rt self (ascii ''conversations.history'') (ascii ''GET'') (Some data) n)
           (\<lambda>result. py_get result (ascii ''messages'') (JList [])))"

definition open_dm_channel ::
  "runtime \<Rightarrow> SlackAPIClient \<Rightarrow> ustr \<Rightarrow> net \<Rightarrow> (exn + json) \<times> net" where
  "open_dm_channel rt self user_id n =
     (let data = [(ascii ''users'', JStr user_id)]
      in returning
           (make_request rt self (ascii ''conversations.open'') (ascii ''POST'') (Some data) n)
           (\<lambda>result. and_then (py_getitem result (ascii ''channel''))
                        (\<lambda>channel. py_getitem channel (ascii ''id''))))"

definition send_direct_message ::
  "runtime \<Rightarrow> SlackAPIClient \<Rightarrow> ustr \<Rightarrow> ustr \<Rightarrow> net \<Rightarrow> (exn + json) \<times> net" where
  "send_direct_message rt self user_id text n =
     (case open_dm_channel rt self user_id n of
        (Inl e, n') \<Rightarrow> (Inl e, n')
      | (Inr dm_channel_id, n') \<Rightarrow> send_message rt self dm_channel_id text n')"

definition get_users ::
  "runtime \<Rightarrow> SlackAPIClient \<Rightarrow> net \<Rightarrow> (exn + json) \<times> net" where
  "get_users rt self n =
     returning (make_request rt self (ascii ''users.list'') (ascii ''GET'') None n)
       (\<lambda>result. py_get result (ascii ''members'') (JList []))"

section \<open>The text analyzer\<close>

text \<open>The body of the loop over the messages: the words one message adds to
  \<open>all_words\<close>, none when it is skipped.\<close>

definition message_words :: "runtime \<Rightarrow> json \<Rightarrow> exn + ustr list" where
  "message_words rt message =
     and_then (py_contains (ascii ''text'') message) (\<lambda>has_text.
       if \<not> has_text then Inr []
       else and_then (py_get message (ascii ''type'') JNull) (\<lambda>ty.
         if ty \<noteq> JStr (ascii ''message'') then Inr []
         else and_then (py_get message (ascii ''bot_id'') JNull) (\<lambda>bot_id.
           if truthy bot_id then Inr []
           else and_then (py_get message (ascii ''subtype'') JNull) (\<lambda>subtype.
             if truthy subtype then Inr []
             else and_then (py_getitem message (ascii ''text''))
                    (extract_words_from_text rt)))))"

fun collect_words :: "runtime \<Rightarrow> json list \<Rightarrow> ustr list \<Rightarrow> exn + ustr list" where
  "collect_words rt [] all_words = Inr all_words"
| "collect_words rt (message # rest) all_words =
     and_then (message_words rt message)
       (\<lambda>words. collect_words rt rest (all_words @ words))"

text \<open>What \<open>analyze_channel_word_frequency\<close> computes from the fetched history.\<close>

definition word_frequency_of :: "runtime \<Rightarrow> json \<Rightarrow> exn + (ustr \<times> int) list" where
  "word_frequency_of rt messages =
     and_then (py_iter messages) (\<lambda>items.
       and_then (collect_words rt items []) (\<lambda>all_words.
         Inr (most_common (Counter all_words))))"

definition analyze_channel_word_frequency ::
  "runtime \<Rightarrow> SlackAPIClient \<Rightarrow> ustr \<Rightarrow> int \<Rightarrow> net \<Rightarrow> (exn + (ustr \<times> int) list) \<times> net" where
  "analyze_channel_word_frequency rt self channel_id limit n =
     (let limit = (if limit > 1000 then 1000 else limit)
      in returning (get_channel_history rt self channel_id (min limit 100) n)
           (word_frequency_of rt))"

text \<open>\<open>xs[:k]\<close>: a negative \<open>k\<close> counts from the end.\<close>

definition slice_to :: "'a list \<Rightarrow> int \<Rightarrow> 'a list" where
  "slice_to xs k = (if 0 \<le> k then take (nat k) xs else take (length xs - nat (- k)) xs)"

text \<open>The entry \<open>percentage\<close> of the report: the division is evaluated only under the
  condition \<open>total_words > 0\<close>; the other branch is the \<open>int\<close> \<open>0\<close>.\<close>

definition percentage :: "int \<Rightarrow> int \<Rightarrow> exn + json" where
  "percentage count total_words =
     (if total_words > 0 then
        and_then (py_truediv count total_words)
          (\<lambda>q. Inr (JFloat (py_round2 (float_mul_int q 100))))
      else Inr (JInt 0))"

fun top_words_list :: "(ustr \<times> int) list \<Rightarrow> int \<Rightarrow> exn + json list" where
  "top_words_list [] total_words = Inr []"
| "top_words_list ((word, count) # rest) total_words =
     and_then (percentage count total_words) (\<lambda>p.
       and_then (top_words_list rest total_words) (\<lambda>entries.
         Inr (JObj [(ascii ''word'', JStr word), (ascii ''count'', JInt count),
                    (ascii ''percentage'', p)] # entries)))"

text \<open>The body of the \<open>try\<close> of \<open>get_top_words_in_channel\<close> after the analysis.\<close>

definition top_words_report ::
  "ustr \<Rightarrow> int \<Rightarrow> int \<Rightarrow> (ustr \<times> int) list \<Rightarrow> exn + json" where
  "top_words_report channel_id top_n message_limit word_frequency =
     (let top_words = slice_to word_frequency top_n;
          total_words = sum_list (map snd word_frequency);
          unique_words = int (length word_frequency)
      in and_then (top_words_list top_words total_words) (\<lambda>entries.
           Inr (JObj [(ascii ''success'', JBool True),
                      (ascii ''channel_id'', JStr channel_id),
                      (ascii ''analysis_stats'',
                         JObj [(ascii ''total_words_analyzed'', JInt total_words),
                               (ascii ''unique_words'', JInt unique_words),
                               (ascii ''message_limit'', JInt message_limit)]),
                      (ascii ''top_words'', JList entries)])))"

definition get_top_words_in_channel ::
  "runtime \<Rightarrow> SlackAPIClient \<Rightarrow> ustr \<Rightarrow> int \<Rightarrow> int \<Rightarrow> net \<Rightarrow> (exn + json) \<times> net" where
  "get_top_words_in_channel rt self channel_id top_n message_limit n =
     (let (word_frequency, n') = analyze_channel_word_frequency rt self channel_id message_limit n
      in (try_except
            (and_then word_frequency (top_words_report channel_id top_n message_limit))
            (\<lambda>e. JObj [(ascii ''success'', JBool False),
                        (ascii ''error'', JStr (analysis_failed_prefix @ str_exn rt e)),
                        (ascii ''channel_id'', JStr channel_id)]),
          n'))"

section \<open>The tool layer\<close>

text \<open>The failure result of a tool: the \<open>except\<close> clause with its message prefix.\<close>

definition failure :: "runtime \<Rightarrow> ustr \<Rightarrow> exn \<Rightarrow> json" where
  "failure rt prefix e =
     JObj [(ascii ''success'', JBool False), (ascii ''error'', JStr (prefix @ str_exn rt e))]"

definition send_slack_message ::
  "runtime \<Rightarrow> SlackAPIClient \<Rightarrow> ustr \<Rightarrow> ustr \<Rightarrow> net \<Rightarrow> (exn + json) \<times> net" where
  "send_slack_message rt slack_client channel text n =
     (let (result, n') = send_message rt slack_client (JStr channel) text n
      in (try_except
            (and_then result (\<lambda>result.
               and_then (py_get result (ascii ''channel'') JNull) (\<lambda>ch.
                 and_then (py_get result (ascii ''ts'') JNull) (\<lambda>ts.
                   Inr (JObj [(ascii ''success'', JBool True),
                              (ascii ''message'', JStr message_sent_text),
                              (ascii ''channel'', ch),
                              (ascii ''timestamp'', ts),
                              (ascii ''text'', JStr text)])))))
            (failure rt send_failed_prefix),
          n'))"

definition channel_info :: "json \<Rightarrow> exn + json" where
  "channel_info channel =
     and_then (py_get channel (ascii ''id'') JNull) (\<lambda>cid.
     and_then (py_get channel (ascii ''name'') JNull) (\<lambda>name.
     and_then (py_get channel (ascii ''is_private'') (JBool False)) (\<lambda>is_private.
     and_then (py_get channel (ascii ''is_member'') (JBool False)) (\<lambda>is_member.
     and_then (py_get channel (ascii ''topic'') (JObj [])) (\<lambda>topic.
     and_then (py_get topic (ascii ''value'') (JStr [])) (\<lambda>topic_value.
     and_then (py_get channel (ascii ''purpose'') (JObj [])) (\<lambda>purpose.
     and_then (py_get purpose (ascii ''value'') (JStr [])) (\<lambda>purpose_value.
     and_then (py_get channel (ascii ''num_members'') (JInt 0)) (\<lambda>num_members.
       Inr (JObj [(ascii ''id'', cid),
                  (ascii ''name'', name),
                  (ascii ''is_private'', is_private),
                  (ascii ''is_member'', is_member),
                  (ascii ''topic'', topic_value),
                  (ascii ''purpose'', purpose_value),
                  (ascii ''num_members'', num_members)]))))))))))"

fun channel_loop :: "json list \<Rightarrow> json list \<Rightarrow> exn + json list" where
  "channel_loop [] channel_list = Inr channel_list"
| "channel_loop (channel # rest) channel_list =
     and_then (channel_info channel) (\<lambda>info. channel_loop rest (channel_list @ [info]))"

definition get_slack_channels ::
  "runtime \<Rightarrow> SlackAPIClient \<Rightarrow> net \<Rightarrow> (exn + json) \<times> net" where
  "get_slack_channels rt slack_client n =
     (let (channels, n') = get_channels rt slack_client n
      in (try_except
            (and_then channels (\<lambda>channels.
               and_then (py_iter channels) (\<lambda>items.
                 and_then (channel_loop items []) (\<lambda>channel_list.
                   Inr (JObj [(ascii ''success'', JBool True),
                              (ascii ''channels'', JList channel_list),
                              (ascii ''total_count'', JInt (int (length channel_list)))])))))
            (failure rt channels_failed_prefix),
          n'))"

definition message_info :: "json \<Rightarrow> exn + json" where
  "message_info message =
     and_then (py_get message (ascii ''text'') (JStr [])) (\<lambda>text.
     and_then (py_get message (ascii ''user'') (JStr [])) (\<lambda>user.
     and_then (py_get message (ascii ''ts'') (JStr [])) (\<lambda>ts.
     and_then (py_get message (ascii ''type'') (JStr [])) (\<lambda>ty.
     and_then (py_get message (ascii ''subtype'') (JStr [])) (\<lambda>subtype.
       Inr (JObj [(ascii ''text'', text),
                  (ascii ''user'', user),
                  (ascii ''timestamp'', ts),
                  (ascii ''type'', ty),
                  (ascii ''subtype'', subtype)]))))))"

fun message_loop :: "json list \<Rightarrow> json list \<Rightarrow> exn + json list" where
  "message_loop [] message_list = Inr message_list"
| "message_loop (message # rest) message_list =
     and_then (message_info message) (\<lambda>info. message_loop rest (message_list @ [info]))"

definition get_slack_channel_history ::
  "runtime \<Rightarrow> SlackAPIClient \<Rightarrow> ustr \<Rightarrow> int \<Rightarrow> net \<Rightarrow> (exn + json) \<times> net" where
  "get_slack_channel_history rt slack_client channel_id limit n =
     (let (messages, n') = get_channel_history rt slack_client channel_id limit n
      in (try_except
            (and_then messages (\<lambda>messages.
               and_then (py_iter messages) (\<lambda>items.
                 and_then (message_loop items []) (\<lambda>message_list.
                   Inr (JObj [(ascii ''success'', JBool True),
                              (ascii ''messages'', JList message_list),
                              (ascii ''channel_id'', JStr channel_id),
                              (ascii ''message_count'', JInt (int (length message_list)))])))))
            (failure rt history_failed_prefix),
          n'))"

definition send_slack_direct_message ::
  "runtime \<Rightarrow> SlackAPIClient \<Rightarrow> ustr \<Rightarrow> ustr \<Rightarrow> net \<Rightarrow> (exn + json) \<times> net" where
  "send_slack_direct_message rt slack_client user_id text n =
     (let (result, n') = send_direct_message rt slack_client user_id text n
      in (try_except
            (and_then result (\<lambda>result.
               and_then (py_get result (ascii ''ts'') JNull) (\<lambda>ts.
                 Inr (JObj [(ascii ''success'', JBool True),
                            (ascii ''message'', JStr dm_sent_text),
                            (ascii ''user_id'', JStr user_id),
                            (ascii ''timestamp'', ts),
                            (ascii ''text'', JStr text)]))))
            (failure rt dm_failed_prefix),
          n'))"

definition user_info :: "json \<Rightarrow> exn + json" where
  "user_info user =
     and_then (py_get user (ascii ''id'') JNull) (\<lambda>uid.
     and_then (py_get user (ascii ''name'') JNull) (\<lambda>name.
     and_then (py_get user (ascii ''real_name'') (JStr [])) (\<lambda>real_name.
     and_then (py_get user (ascii ''profile'') (JObj [])) (\<lambda>profile.
     and_then (py_get profile (ascii ''display_name'') (JStr [])) (\<lambda>display_name.
     and_then (py_get user (ascii ''profile'') (JObj [])) (\<lambda>profile.
     and_then (py_get profile (ascii ''email'') (JStr [])) (\<lambda>email.
     and_then (py_get user (ascii ''is_bot'') (JBool False)) (\<lambda>is_bot.
     and_then (py_get user (ascii ''is_admin'') (JBool False)) (\<lambda>is_admin.
       Inr (JObj [(ascii ''id'', uid),
                  (ascii ''name'', name),
                  (ascii ''real_name'', real_name),
                  (ascii ''display_name'', display_name),
                  (ascii ''email'', email),
                  (ascii ''is_bot'', is_bot),
                  (ascii ''is_admin'', is_admin)]))))))))))"

fun user_loop :: "json list \<Rightarrow> json list \<Rightarrow> exn + json list" where
  "user_loop [] user_list = Inr user_list"
| "user_loop (user # rest) user_list =
     and_then (py_get user (ascii ''deleted'') (JBool False)) (\<lambda>deleted.
       if \<not> truthy deleted then
         and_then (user_info user) (\<lambda>info. user_loop rest (user_list @ [info]))
       else user_loop rest user_list)"

definition get_slack_users ::
  "runtime \<Rightarrow> SlackAPIClient \<Rightarrow> net \<Rightarrow> (exn + json) \<times> net" where
  "get_slack_users rt slack_client n =
     (let (users, n') = get_users rt slack_client n
      in (try_except
            (and_then users (\<lambda>users.
               and_then (py_iter users) (\<lambda>items.
                 and_then (user_loop items []) (\<lambda>user_list.
                   Inr (JObj [(ascii ''success'', JBool True),
                              (ascii ''users'', JList user_list),
                              (ascii ''total_count'', JInt (int (length user_list)))])))))
            (failure rt users_failed_prefix),
          n'))"

section \<open>The tokenizer in the words of the specification\<close>

text \<open>Every character that is not alphanumeric, the underscore or a Hangul syllable
  becomes a space.\<close>

definition spec_replace :: "runtime \<Rightarrow> ustr \<Rightarrow> ustr" where
  "spec_replace rt s = map (\<lambda>c. if isalnum rt c \<or> c = 95 \<or> hangul c then c else 32) s"

text \<open>Repeated whitespace collapses to a single space: each run of whitespace becomes
  one space.\<close>

function spec_collapse :: "runtime \<Rightarrow> ustr \<Rightarrow> ustr" where
  "spec_collapse rt [] = []"
| "spec_collapse rt (c # cs) =
     (if isspace rt c then 32 # spec_collapse rt (dropWhile (isspace rt) cs)
      else c # spec_collapse rt cs)"
  by pat_completeness auto
termination
  by (relation "measure (\<lambda>(rt, s). length s)")
     (auto simp: length_dropWhile_le less_Suc_eq_le)

text \<open>The text splits on whitespace: the tokens are its maximal runs of characters that
  are not whitespace.\<close>

function spec_split :: "runtime \<Rightarrow> ustr \<Rightarrow> ustr list" where
  "spec_split rt s =
     (case dropWhile (isspace rt) s of
        [] \<Rightarrow> []
      | c # cs \<Rightarrow> (c # takeWhile (\<lambda>x. \<not> isspace rt x) cs)
                  # spec_split rt (dropWhile (\<lambda>x. \<not> isspace rt x) cs))"
  by pat_completeness auto
termination
proof (relation "measure (\<lambda>(rt, s). length s)")
  show "wf (measure (\<lambda>(rt, s). length s))"
    by simp
next
  fix rt :: runtime and s :: ustr and c cs
  assume "dropWhile (isspace rt) s = c # cs"
  then have "Suc (length cs) \<le> length s"
    using length_dropWhile_le [of "isspace rt" s] by simp
  moreover have "length (dropWhile (\<lambda>x. \<not> isspace rt x) cs) \<le> length cs"
    by (rule length_dropWhile_le)
  ultimately show "((rt, dropWhile (\<lambda>x. \<not> isspace rt x) cs), (rt, s)) \<in> measure (\<lambda>(rt, s). length s)"
    by simp
qed

declare spec_split.simps [simp del]

definition spec_words :: "runtime \<Rightarrow> ustr \<Rightarrow> ustr list" where
  "spec_words rt text = spec_split rt (lower rt (spec_collapse rt (spec_replace rt text)))"

section \<open>The analyzer without its own clamp\<close>

definition analyze_without_inner_clamp ::
  "runtime \<Rightarrow> SlackAPIClient \<Rightarrow> ustr \<Rightarrow> int \<Rightarrow> net \<Rightarrow> (exn + (ustr \<times> int) list) \<times> net" where
  "analyze_without_inner_clamp rt self channel_id limit n =
     returning (get_channel_history rt self channel_id (min limit 100) n)
       (word_frequency_of rt)"

section \<open>Values for the statements and the examples\<close>

text \<open>The request of a history fetch whose effective limit is \<open>limit\<close>.\<close>

definition history_request :: "SlackAPIClient \<Rightarrow> ustr \<Rightarrow> int \<Rightarrow> request" where
  "history_request self channel_id limit =
     Get (base_url self @ ascii ''/'' @ ascii ''conversations.history'') (headers self)
       (Some [(ascii ''channel'', JStr channel_id), (ascii ''limit'', JInt limit)])"

text \<open>A successful body of the remote service with one payload field.\<close>

definition ok_body :: "string \<Rightarrow> json \<Rightarrow> response" where
  "ok_body field payload = Body (JObj [(ascii ''ok'', JBool True), (ascii field, payload)])"

text \<open>A plain human message with the given text.\<close>

definition plain_message :: "ustr \<Rightarrow> json" where
  "plain_message text = JObj [(ascii ''type'', JStr (ascii ''message'')), (ascii ''text'', JStr text)]"

text \<open>A message dict that the analyzer's loop skips: no key \<open>text\<close>, a \<open>type\<close> other
  than \<open>message\<close>, a truthy \<open>bot_id\<close>, or a truthy \<open>subtype\<close>.\<close>

definition skipped :: "(ustr \<times> json) list \<Rightarrow> bool" where
  "skipped m =
     (map_of m (ascii ''text'') = None
      \<or> dict_get m (ascii ''type'') JNull \<noteq> JStr (ascii ''message'')
      \<or> truthy (dict_get m (ascii ''bot_id'') JNull)
      \<or> truthy (dict_get m (ascii ''subtype'') JNull))"

text \<open>The request of \<open>get_users\<close>.\<close>

definition users_request :: "SlackAPIClient \<Rightarrow> request" where
  "users_request self = Get (base_url self @ ascii ''/'' @ ascii ''users.list'') (headers self) None"

text \<open>A user object of the member list: a dict whose \<open>profile\<close>, when it has one, is a
  dict.\<close>

fun user_record :: "json \<Rightarrow> bool" where
  "user_record (JObj d) =
     (case dict_get d (ascii ''profile'') (JObj []) of JObj p \<Rightarrow> True | _ \<Rightarrow> False)"
| "user_record _ = False"

text \<open>The soft-delete flag of a user object, as the tool tests it.\<close>

fun deleted_flag :: "json \<Rightarrow> bool" where
  "deleted_flag (JObj d) = truthy (dict_get d (ascii ''deleted'') (JBool False))"
| "deleted_flag _ = False"

text \<open>A structured result: a dict with a boolean \<open>success\<close> and, when that is false, a
  string \<open>error\<close>. A tool call is contained when it returns such a result and raises
  nothing.\<close>

definition structured :: "json \<Rightarrow> bool" where
  "structured v =
     (case v of
        JObj d \<Rightarrow>
          (case map_of d (ascii ''success'') of
             Some (JBool ok) \<Rightarrow>
               ok \<or> (case map_of d (ascii ''error'') of Some (JStr msg) \<Rightarrow> True | _ \<Rightarrow> False)
           | _ \<Rightarrow> False)
      | _ \<Rightarrow> False)"

definition contained :: "(exn + json) \<times> net \<Rightarrow> bool" where
  "contained r = (case fst r of Inl e \<Rightarrow> False | Inr v \<Rightarrow> structured v)"

text \<open>A runtime that knows no character outside ASCII, a client, and two networks:
  one where every request gets the same response, one where every request fails.\<close>

definition ascii_only :: runtime where
  "ascii_only = \<lparr>uni_isalnum = (\<lambda>c. False), uni_isspace = (\<lambda>c. False),
                  uni_lower = (\<lambda>s. s), str_value = (\<lambda>v. ascii ''?''),
                  exn_text = (\<lambda>e. ascii ''?'')\<rparr>"

definition a_client :: SlackAPIClient where
  "a_client = SlackAPIClient_init (ascii ''xoxb-1'')"

definition answering :: "response \<Rightarrow> net" where
  "answering r = \<lparr>reply = (\<lambda>before req. r), sent = []\<rparr>"

definition offline :: net where
  "offline = answering (RequestException (ascii ''timeout''))"

section \<open>The history fetch\<close>

lemma make_request_sent:
  "sent (snd (make_request rt self endpoint method data n)) =
     sent n @ [if method = ascii ''GET''
               then Get (base_url self @ ascii ''/'' @ endpoint) (headers self) data
               else Post (base_url self @ ascii ''/'' @ endpoint) (headers self) data]"
  by (simp add: make_request_def Let_def)

lemma returning_simps [simp]:
  "fst (returning rn f) = and_then (fst rn) f"
  "snd (returning rn f) = snd rn"
  by (simp_all add: returning_def)

lemma get_channel_history_sent:
  "sent (snd (get_channel_history rt self channel_id limit n)) =
     sent n @ [history_request self channel_id (min limit 100)]"
  by (simp add: get_channel_history_def make_request_sent history_request_def Let_def min_def)

lemma get_channel_history_min:
  "get_channel_history rt self channel_id limit n =
     get_channel_history rt self channel_id (min limit 100) n"
  by (simp add: get_channel_history_def Let_def min_def)

text \<open>
  C2. A history fetch with a limit above 100 sends exactly one request, and the limit in
  its data is 100. The clamp is silent: the call returns what the call with the limit
  100 returns, and leaves the network as that call leaves it.
\<close>

theorem get_channel_history_clamps:
  assumes "100 < limit"
  shows "sent (snd (get_channel_history rt self channel_id limit n)) =
           sent n @ [history_request self channel_id 100] \<and>
         get_channel_history rt self channel_id limit n =
           get_channel_history rt self channel_id 100 n"
  using assms get_channel_history_sent [of rt self channel_id limit n]
    get_channel_history_min [of rt self channel_id limit n]
  by (simp add: min_def)

theorem get_channel_history_clamps_witness:
  "(100 :: int) < 250 \<and>
   sent (snd (get_channel_history ascii_only a_client (ascii ''C1'') 250 offline)) =
     [Get (ascii ''https://slack.com/api/conversations.history'')
        [(ascii ''Authorization'', ascii ''Bearer xoxb-1''),
         (ascii ''Content-Type'', ascii ''application/json; charset=utf-8'')]
        (Some [(ascii ''channel'', JStr (ascii ''C1'')), (ascii ''limit'', JInt 100)])]"
  using get_channel_history_clamps [of 250 ascii_only a_client "ascii ''C1''" offline, THEN conjunct1]
  by (simp add: history_request_def a_client_def SlackAPIClient_init_def offline_def
      answering_def ascii_def)

text \<open>
  C10. A history fetch with a limit of at most 100, zero and negative limits included,
  sends the caller's limit unchanged in its one request.
\<close>

theorem get_channel_history_keeps_small_limit:
  assumes "limit \<le> 100"
  shows "sent (snd (get_channel_history rt self channel_id limit n)) =
           sent n @ [history_request self channel_id limit]"
  using assms get_channel_history_sent [of rt self channel_id limit n]
  by (simp add: min_def)

theorem get_channel_history_keeps_small_limit_witness:
  "(- 5 :: int) \<le> 100 \<and>
   sent (snd (get_channel_history ascii_only a_client (ascii ''C1'') (- 5) offline)) =
     [Get (ascii ''https://slack.com/api/conversations.history'')
        [(ascii ''Authorization'', ascii ''Bearer xoxb-1''),
         (ascii ''Content-Type'', ascii ''application/json; charset=utf-8'')]
        (Some [(ascii ''channel'', JStr (ascii ''C1'')), (ascii ''limit'', JInt (- 5))])]"
  using get_channel_history_keeps_small_limit [of "- 5" ascii_only a_client "ascii ''C1''" offline]
  by (simp add: history_request_def a_client_def SlackAPIClient_init_def offline_def
      answering_def ascii_def)

section \<open>The analyzer's clamp\<close>

lemma min_inner_clamp: "min (if 1000 < limit then 1000 else limit) 100 = min limit (100 :: int)"
  by simp

text \<open>
  C5. For every \<open>message_limit\<close> the analyzer fetches the history with the limit
  \<open>min message_limit 100\<close>, and that is the limit of the one request it sends. Its own
  clamp to at most 1000 has no effect: the analyzer without that clamp returns the same
  result and leaves the same network, for every input.
\<close>

theorem analyzer_inner_clamp_has_no_effect:
  "sent (snd (analyze_channel_word_frequency rt self channel_id message_limit n)) =
     sent n @ [history_request self channel_id (min message_limit 100)] \<and>
   analyze_channel_word_frequency rt self channel_id message_limit n =
     returning (get_channel_history rt self channel_id (min message_limit 100) n)
       (word_frequency_of rt) \<and>
   analyze_channel_word_frequency rt self channel_id message_limit n =
     analyze_without_inner_clamp rt self channel_id message_limit n"
  by (simp add: analyze_channel_word_frequency_def analyze_without_inner_clamp_def Let_def
      min_inner_clamp get_channel_history_sent del: min_less_iff_conj)

theorem analyzer_inner_clamp_has_no_effect_witness:
  "sent (snd (analyze_channel_word_frequency ascii_only a_client (ascii ''C1'') 5000 offline)) =
     [history_request a_client (ascii ''C1'') 100]"
  using analyzer_inner_clamp_has_no_effect
    [of ascii_only a_client "ascii ''C1''" 5000 offline, THEN conjunct1]
  by (simp add: offline_def answering_def)

section \<open>The tokenizer\<close>

lemma isspace_32 [simp]: "isspace rt 32"
  by (simp add: isspace_def ascii_isspace_def)

lemma sub_spaces_in_run:
  "sub_spaces rt True s = sub_spaces rt False (dropWhile (isspace rt) s)"
  by (induction s) simp_all

lemma sub_spaces_spec_collapse: "sub_spaces rt False s = spec_collapse rt s"
proof (induction rt s rule: spec_collapse.induct)
  case (1 rt)
  show ?case by simp
next
  case (2 rt c cs)
  show ?case
  proof (cases "isspace rt c")
    case True
    with 2 show ?thesis by (simp add: sub_spaces_in_run)
  next
    case False
    with 2 show ?thesis by simp
  qed
qed

lemma sub_other_simps [simp]:
  "sub_other rt [] = []"
  "sub_other rt (c # cs) =
     (if \<not> isword rt c \<and> \<not> isspace rt c \<and> \<not> hangul c then 32 else c) # sub_other rt cs"
  by (simp_all add: sub_other_def)

lemma spec_replace_simps [simp]:
  "spec_replace rt [] = []"
  "spec_replace rt (c # cs) =
     (if isalnum rt c \<or> c = 95 \<or> hangul c then c else 32) # spec_replace rt cs"
  by (simp_all add: spec_replace_def)

lemma sub_spaces_replace:
  "sub_spaces rt b (sub_other rt s) = sub_spaces rt b (spec_replace rt s)"
  by (induction s arbitrary: b) (simp_all add: isword_def)

lemma spec_split_dropWhile: "spec_split rt (dropWhile (isspace rt) s) = spec_split rt s"
proof -
  have "dropWhile (isspace rt) (dropWhile (isspace rt) s) = dropWhile (isspace rt) s"
    by simp
  then show ?thesis
    by (simp add: spec_split.simps [of rt s] spec_split.simps [of rt "dropWhile (isspace rt) s"])
qed

lemma spec_split_Nil [simp]: "spec_split rt [] = []"
  by (simp add: spec_split.simps)

lemma spec_split_space: "isspace rt c \<Longrightarrow> spec_split rt (c # cs) = spec_split rt cs"
  using spec_split_dropWhile [of rt "c # cs"] spec_split_dropWhile [of rt cs] by simp

lemma spec_split_word:
  "\<not> isspace rt c \<Longrightarrow>
   spec_split rt (c # cs) =
     (c # takeWhile (\<lambda>x. \<not> isspace rt x) cs) # spec_split rt (dropWhile (\<lambda>x. \<not> isspace rt x) cs)"
  by (simp add: spec_split.simps [of rt "c # cs"])

lemma str_split_spec_split:
  "str_split rt cur s =
     (if cur = [] then spec_split rt s
      else (cur @ takeWhile (\<lambda>x. \<not> isspace rt x) s)
             # spec_split rt (dropWhile (\<lambda>x. \<not> isspace rt x) s))"
proof (induction s arbitrary: cur)
  case Nil
  show ?case by simp
next
  case (Cons c cs)
  show ?case
  proof (cases "isspace rt c")
    case True
    then show ?thesis by (simp add: Cons.IH spec_split_space)
  next
    case False
    then show ?thesis by (simp add: Cons.IH spec_split_word)
  qed
qed

lemma words_of_spec_words: "words_of rt text = spec_words rt text"
  by (simp add: words_of_def spec_words_def str_split_spec_split sub_spaces_replace
      sub_spaces_spec_collapse)

lemma spec_words_Nil: "spec_words rt [] = []"
  by (simp add: spec_words_def lower_def)

text \<open>
  C4. For every text, the token list of \<open>_extract_words_from_text\<close> (its variable
  \<open>words\<close>) is the one the specification describes: every character that is not
  alphanumeric, the underscore or a Hangul syllable becomes a space, repeated whitespace
  collapses to one space, the text is lower-cased and split on whitespace. The function
  returns the kept words of that list, also for the empty text.
\<close>

theorem tokenizer_follows_spec:
  "words_of rt text = spec_words rt text \<and>
   extract_words_str rt text = filter keep_word (spec_words rt text) \<and>
   extract_words_from_text rt (JStr text) = Inr (filter keep_word (spec_words rt text))"
  by (simp add: words_of_spec_words extract_words_str_def extract_words_from_text_def
      spec_words_Nil)

theorem tokenizer_follows_spec_witness:
  "spec_words ascii_only (ascii ''Hi, You_2 --  C3PO!'') =
     [ascii ''hi'', ascii ''you_2'', ascii ''c3po'']"
proof -
  have "words_of ascii_only (ascii ''Hi, You_2 --  C3PO!'') =
          [ascii ''hi'', ascii ''you_2'', ascii ''c3po'']"
    by (simp add: words_of_def sub_other_def ascii_def isspace_def isword_def isalnum_def
        ascii_isspace_def ascii_isalnum_def ascii_lower_def hangul_def lower_def)
  then show ?thesis
    using tokenizer_follows_spec [of ascii_only "ascii ''Hi, You_2 --  C3PO!''"] by simp
qed

section \<open>Evaluating the analyzer\<close>

lemmas char_defs = ascii_def isspace_def isword_def isalnum_def ascii_isspace_def
  ascii_isalnum_def ascii_lower_def hangul_def lower_def

section \<open>Evaluating floats\<close>

lemma floor_rat_numeral: "\<lfloor>(numeral a :: rat) / numeral b\<rfloor> = numeral a div numeral b"
  using floor_divide_of_int_eq [of "numeral a" "numeral b", where ?'a = rat] by simp

lemma ceiling_rat_numeral: "\<lceil>(numeral a :: rat) / numeral b\<rceil> = - (- numeral a div numeral b)"
  using ceiling_divide_eq_div [of "numeral a" "numeral b", where ?'a = rat] by simp

lemma bit_length_0: "bit_length 0 = 0"
  by (simp add: bit_length.simps)

lemma bit_length_1: "bit_length (Suc 0) = Suc 0"
  by (subst bit_length.simps) (simp add: bit_length_0)

lemma bit_length_One: "bit_length (numeral Num.One) = 1"
  by (subst bit_length.simps) (simp add: bit_length_0)

lemma bit_length_Bit0: "bit_length (numeral (Num.Bit0 k)) = Suc (bit_length (numeral k))"
  by (subst bit_length.simps) simp

lemma bit_length_Bit1: "bit_length (numeral (Num.Bit1 k)) = Suc (bit_length (numeral k))"
  by (subst bit_length.simps) simp

lemmas float_eval = to_double_def binexp_def bit_length_0 bit_length_1 bit_length_One
  bit_length_Bit0 bit_length_Bit1 pow2_def round_half_even_def Let_def
  floor_rat_numeral ceiling_rat_numeral too_large_def py_truediv_def

section \<open>The binary exponent of a positive number\<close>

lemma bit_length_pos: "0 < n \<Longrightarrow> 0 < bit_length n"
  by (subst bit_length.simps) simp

lemma bit_length_bounds:
  "0 < n \<Longrightarrow> 2 ^ (bit_length n - 1) \<le> n \<and> n < 2 ^ bit_length n"
proof (induction n rule: bit_length.induct)
  case (1 n)
  show ?case
  proof (cases "n div 2 = 0")
    case True
    with 1(2) have "n = 1"
      by (auto simp: div_eq_0_iff)
    then show ?thesis
      by (simp add: bit_length_1)
  next
    case False
    then have h: "0 < n div 2"
      by simp
    from 1(2) have n: "n \<noteq> 0"
      by simp
    from 1(1) [OF n h] have lo: "2 ^ (bit_length (n div 2) - 1) \<le> n div 2"
      and hi: "n div 2 < 2 ^ bit_length (n div 2)"
      by simp_all
    have bl: "bit_length n = Suc (bit_length (n div 2))"
      using n by (subst bit_length.simps) simp
    from bit_length_pos [OF h] obtain k where k: "bit_length (n div 2) = Suc k"
      by (cases "bit_length (n div 2)") simp_all
    from lo k have "2 * 2 ^ k \<le> 2 * (n div 2)"
      by simp
    then have "2 ^ Suc k \<le> n"
      by simp
    moreover from hi have "n < 2 * 2 ^ bit_length (n div 2)"
      by linarith
    ultimately show ?thesis
      by (simp add: bl k)
  qed
qed

lemma pow2_int: "pow2 (int k) = 2 ^ k"
  by (simp add: pow2_def)

lemma pow2_neg_int: "pow2 (- int k) = 1 / 2 ^ k"
  by (cases k) (simp_all add: pow2_def nat_add_distrib)

lemma binexp_bounds:
  assumes "0 < x"
  shows "pow2 (binexp x) \<le> x \<and> x < pow2 (binexp x + 1)"
proof (cases "1 \<le> x")
  case True
  define m where "m = nat \<lfloor>x\<rfloor>"
  have m: "0 < m"
    using True by (simp add: m_def)
  have fl: "rat_of_int \<lfloor>x\<rfloor> = of_nat m"
    using True by (simp add: m_def)
  from bit_length_bounds [OF m] have lo: "2 ^ (bit_length m - 1) \<le> m" and hi: "m < 2 ^ bit_length m"
    by simp_all
  from bit_length_pos [OF m] obtain k where k: "bit_length m = Suc k"
    by (cases "bit_length m") simp_all
  have e: "binexp x = int k"
    using True by (simp add: binexp_def m_def [symmetric] k)
  have "(2 :: rat) ^ k \<le> of_nat m"
    using lo k by (metis diff_Suc_1 of_nat_le_iff of_nat_numeral of_nat_power)
  also have "\<dots> \<le> x"
    using fl [symmetric] by simp
  finally have a: "pow2 (binexp x) \<le> x"
    by (simp add: e pow2_def)
  have "x < of_int \<lfloor>x\<rfloor> + 1"
    by linarith
  also have "\<dots> = of_nat (m + 1)"
    by (simp add: fl)
  also have "\<dots> \<le> of_nat (2 ^ Suc k)"
    using hi k by (metis Suc_eq_plus1 Suc_leI of_nat_le_iff)
  finally have "x < 2 ^ Suc k"
    by simp
  then have b: "x < pow2 (binexp x + 1)"
    by (simp add: e pow2_def nat_add_distrib)
  from a b show ?thesis ..
next
  case False
  define y where "y = 1 / x"
  have y: "1 < y"
    using False assms by (simp add: y_def)
  define m where "m = nat (\<lceil>y\<rceil> - 1)"
  have c: "2 \<le> \<lceil>y\<rceil>"
    using y by linarith
  then have m: "0 < m"
    by (simp add: m_def)
  have cm: "rat_of_int \<lceil>y\<rceil> = of_nat m + 1"
    using c by (simp add: m_def)
  from bit_length_bounds [OF m] have lo: "2 ^ (bit_length m - 1) \<le> m" and hi: "m < 2 ^ bit_length m"
    by simp_all
  from bit_length_pos [OF m] obtain k where k: "bit_length m = Suc k"
    by (cases "bit_length m") simp_all
  have e: "binexp x = - int (Suc k)"
    using False by (simp add: binexp_def y_def [symmetric] m_def [symmetric] k)
  have "y \<le> of_int \<lceil>y\<rceil>"
    by linarith
  also have "\<dots> = of_nat (m + 1)"
    by (simp add: cm)
  also have "\<dots> \<le> of_nat (2 ^ Suc k)"
    using hi k by (metis Suc_eq_plus1 Suc_leI of_nat_le_iff)
  finally have "y \<le> 2 ^ Suc k"
    by simp
  then have "1 / 2 ^ Suc k \<le> x"
    using assms by (simp add: y_def field_simps)
  then have a: "pow2 (binexp x) \<le> x"
    by (simp only: e pow2_neg_int)
  have "(2 :: rat) ^ k \<le> of_nat m"
    using lo k by (metis diff_Suc_1 of_nat_le_iff of_nat_numeral of_nat_power)
  also have "\<dots> = of_int \<lceil>y\<rceil> - 1"
    by (simp add: cm)
  also have "\<dots> < y"
    by linarith
  finally have "2 ^ k < y" .
  then have "x < 1 / 2 ^ k"
    using assms by (simp add: y_def field_simps)
  moreover have "binexp x + 1 = - int k"
    by (simp add: e)
  ultimately have b: "x < pow2 (binexp x + 1)"
    by (simp only: pow2_neg_int)
  from a b show ?thesis ..
qed

section \<open>The ranking orders by count and keeps the order of ties\<close>

lemma most_common_sorted:
  "sorted_wrt (\<lambda>a b. snd b \<le> snd a) (most_common c)"
proof -
  have "sorted (map (\<lambda>kv. - snd kv) (most_common c))"
    by (simp add: most_common_def)
  then show ?thesis
    by (simp add: sorted_map)
qed

lemma most_common_stable:
  "filter (\<lambda>kv. snd kv = k) (most_common c) = filter (\<lambda>kv. snd kv = k) c"
  using sort_key_stable [of "\<lambda>kv. - snd kv" "- k" c]
  by (simp add: most_common_def)

lemma most_common_set: "set (most_common c) = set c"
  by (simp add: most_common_def)

section \<open>A counter holds each word once, with a positive count\<close>

lemma counter_add_positive:
  "\<forall>kv \<in> set c. 1 \<le> snd kv \<Longrightarrow> \<forall>kv \<in> set (counter_add c w). 1 \<le> snd kv"
  by (induction c w rule: counter_add.induct) auto

lemma foldl_counter_add_positive:
  "\<forall>kv \<in> set c. 1 \<le> snd kv \<Longrightarrow> \<forall>kv \<in> set (foldl counter_add c ws). 1 \<le> snd kv"
proof (induction ws arbitrary: c)
  case Nil
  then show ?case by simp
next
  case (Cons w ws)
  from Cons.prems have "\<forall>kv \<in> set (counter_add c w). 1 \<le> snd kv"
    by (rule counter_add_positive)
  then show ?case
    using Cons.IH [of "counter_add c w"] by simp
qed

lemma Counter_positive: "\<forall>kv \<in> set (Counter ws). 1 \<le> snd kv"
  using foldl_counter_add_positive [of "[]" ws] by (simp add: Counter_def)

lemma counter_add_keys: "map fst (counter_add c w) = (if w \<in> fst ` set c then map fst c else map fst c @ [w])"
  by (induction c w rule: counter_add.induct) auto

lemma foldl_counter_add_distinct:
  "distinct (map fst c) \<Longrightarrow> distinct (map fst (foldl counter_add c ws))"
  by (induction ws arbitrary: c) (simp_all add: counter_add_keys)

lemma Counter_distinct: "distinct (map fst (Counter ws))"
  using foldl_counter_add_distinct [of "[]" ws] by (simp add: Counter_def)

lemma word_frequency_positive:
  assumes "word_frequency_of rt messages = Inr freq"
  shows "\<forall>kv \<in> set freq. 1 \<le> snd kv"
proof -
  from assms obtain all_words where "freq = most_common (Counter all_words)"
    by (auto simp: word_frequency_of_def and_then_def split: sum.splits)
  then show ?thesis
    using Counter_positive [of all_words] by (simp add: most_common_set)
qed

lemma counts_sum_ge_length:
  "\<forall>kv \<in> set freq. 1 \<le> snd kv \<Longrightarrow> int (length freq) \<le> sum_list (map snd freq)"
  by (induction freq) auto

lemma zero_total_means_empty_table:
  assumes "word_frequency_of rt messages = Inr freq"
    and "sum_list (map snd freq) = 0"
  shows "freq = []"
  using counts_sum_ge_length [OF word_frequency_positive [OF assms(1)]] assms(2) by simp

section \<open>The report on a fixed batch\<close>

lemma percentage_2_5: "percentage 2 5 = Inr (JFloat (Finite 40))"
  by (simp add: percentage_def and_then_def float_eval)

lemma percentage_1_5: "percentage 1 5 = Inr (JFloat (Finite 20))"
  by (simp add: percentage_def and_then_def float_eval)

lemma ok_lookup [simp]:
  "dict_get [(ascii ''ok'', JBool True), (ascii ''messages'', v)] (ascii ''ok'') d = JBool True"
  "dict_get [(ascii ''ok'', JBool True), (ascii ''messages'', v)] (ascii ''messages'') d = v"
  by (simp_all add: dict_get_def ascii_def)

lemma get_channel_history_ok:
  assumes "reply n (sent n) (history_request self channel_id (min limit 100)) =
             ok_body ''messages'' messages"
  shows "fst (get_channel_history rt self channel_id limit n) = Inr messages"
proof -
  have "fst (get_channel_history rt self channel_id (min limit 100) n) = Inr messages"
    using assms
    by (simp add: get_channel_history_def make_request_def Let_def history_request_def
        ok_body_def and_then_def)
  then show ?thesis
    using get_channel_history_min [of rt self channel_id limit n] by simp
qed

lemma analyze_as_fetch:
  "analyze_channel_word_frequency rt self channel_id limit n =
     returning (get_channel_history rt self channel_id limit n) (word_frequency_of rt)"
  using get_channel_history_min [of rt self channel_id limit n]
  by (simp add: analyze_channel_word_frequency_def Let_def min_inner_clamp
      del: min_less_iff_conj)

lemma analyze_ok:
  assumes "reply n (sent n) (history_request self channel_id (min limit 100)) =
             ok_body ''messages'' messages"
  shows "fst (analyze_channel_word_frequency rt self channel_id limit n) =
           word_frequency_of rt messages"
  using get_channel_history_ok [OF assms, of rt]
  by (simp add: analyze_as_fetch and_then_def)

lemma get_top_words_ok:
  assumes "fst (analyze_channel_word_frequency rt self channel_id limit n) = Inr freq"
    and "top_words_report channel_id top_n limit freq = Inr report"
  shows "fst (get_top_words_in_channel rt self channel_id top_n limit n) = Inr report"
  using assms
  by (simp add: get_top_words_in_channel_def try_except_def and_then_def split_beta)

lemma hello_frequency:
  "word_frequency_of rt (JList [plain_message (ascii ''hello hello world''),
                                plain_message (ascii ''world test'')]) =
     Inr [(ascii ''hello'', 2), (ascii ''world'', 2), (ascii ''test'', 1)]"
  by (simp add: word_frequency_of_def and_then_def message_words_def plain_message_def
      dict_get_def extract_words_from_text_def extract_words_str_def words_of_def sub_other_def
      char_defs keep_word_def stop_words_def Counter_def most_common_def)

lemma hello_report:
  assumes "3 \<le> top_n"
  shows "top_words_report cid top_n ml [(ascii ''hello'', 2), (ascii ''world'', 2), (ascii ''test'', 1)] =
    Inr (JObj [(ascii ''success'', JBool True),
                      (ascii ''channel_id'', JStr cid),
                      (ascii ''analysis_stats'',
                         JObj [(ascii ''total_words_analyzed'', JInt 5),
                               (ascii ''unique_words'', JInt 3),
                               (ascii ''message_limit'', JInt ml)]),
                      (ascii ''top_words'', JList [
                         JObj [(ascii ''word'', JStr (ascii ''hello'')), (ascii ''count'', JInt 2),
                    (ascii ''percentage'', JFloat (Finite 40))],
                         JObj [(ascii ''word'', JStr (ascii ''world'')), (ascii ''count'', JInt 2),
                    (ascii ''percentage'', JFloat (Finite 40))],
                         JObj [(ascii ''word'', JStr (ascii ''test'')), (ascii ''count'', JInt 1),
                    (ascii ''percentage'', JFloat (Finite 20))]])])"
  using assms
  by (simp add: top_words_report_def slice_to_def and_then_def percentage_2_5 percentage_1_5)

text \<open>
  C3. When the fetched history is the two plain human messages \<open>hello hello world\<close> and
  \<open>world test\<close>, the ranked word frequency is \<open>[(hello, 2), (world, 2), (test, 1)]\<close>:
  the tie of \<open>hello\<close> and \<open>world\<close> is in the order of first appearance. A report on at
  least three words gives them the percentages 40.0, 40.0 and 20.0 of the five words
  analyzed, which sum to 100.
\<close>

theorem fixed_batch_ranking:
  assumes "reply n (sent n) (history_request self channel_id (min message_limit 100)) =
             ok_body ''messages''
               (JList [plain_message (ascii ''hello hello world''),
                       plain_message (ascii ''world test'')])"
    and "3 \<le> top_n"
  shows "fst (analyze_channel_word_frequency rt self channel_id message_limit n) =
           Inr [(ascii ''hello'', 2), (ascii ''world'', 2), (ascii ''test'', 1)] \<and>
         fst (get_top_words_in_channel rt self channel_id top_n message_limit n) =
           Inr (JObj [(ascii ''success'', JBool True),
                      (ascii ''channel_id'', JStr channel_id),
                      (ascii ''analysis_stats'',
                         JObj [(ascii ''total_words_analyzed'', JInt 5),
                               (ascii ''unique_words'', JInt 3),
                               (ascii ''message_limit'', JInt message_limit)]),
                      (ascii ''top_words'',
                         JList [JObj [(ascii ''word'', JStr (ascii ''hello'')),
                                      (ascii ''count'', JInt 2),
                                      (ascii ''percentage'', JFloat (Finite 40))],
                                JObj [(ascii ''word'', JStr (ascii ''world'')),
                                      (ascii ''count'', JInt 2),
                                      (ascii ''percentage'', JFloat (Finite 40))],
                                JObj [(ascii ''word'', JStr (ascii ''test'')),
                                      (ascii ''count'', JInt 1),
                                      (ascii ''percentage'', JFloat (Finite 20))]])]) \<and>
         (40 :: rat) + 40 + 20 = 100"
proof -
  have freq: "fst (analyze_channel_word_frequency rt self channel_id message_limit n) =
                Inr [(ascii ''hello'', 2), (ascii ''world'', 2), (ascii ''test'', 1)]"
    using analyze_ok [OF assms(1), of rt] by (simp add: hello_frequency)
  show ?thesis
    using freq get_top_words_ok [OF freq hello_report [OF assms(2)]] by simp
qed

theorem fixed_batch_ranking_witness:
  "(3 :: int) \<le> 10 \<and>
   fst (analyze_channel_word_frequency ascii_only a_client (ascii ''C1'') 100
          (answering (ok_body ''messages''
             (JList [plain_message (ascii ''hello hello world''),
                     plain_message (ascii ''world test'')])))) =
     Inr [(ascii ''hello'', 2), (ascii ''world'', 2), (ascii ''test'', 1)]"
proof -
  let ?n = "answering (ok_body ''messages''
              (JList [plain_message (ascii ''hello hello world''),
                      plain_message (ascii ''world test'')]))"
  have r: "reply ?n (sent ?n) (history_request a_client (ascii ''C1'') (min 100 100)) =
             ok_body ''messages''
               (JList [plain_message (ascii ''hello hello world''),
                       plain_message (ascii ''world test'')])"
    by (simp add: answering_def)
  have t: "(3 :: int) \<le> 10"
    by simp
  show ?thesis
    using fixed_batch_ranking [OF r t, of ascii_only, THEN conjunct1] t by simp
qed

section \<open>A total of zero\<close>

lemma frequency_of_nothing: "most_common (Counter []) = []"
  by (simp add: most_common_def Counter_def)

lemma percentage_no_total: "total_words \<le> 0 \<Longrightarrow> percentage count total_words = Inr (JInt 0)"
  by (simp add: percentage_def)

lemma percentage_never_divides_by_zero: "percentage count total_words \<noteq> Inl ZeroDivisionError"
  by (simp add: percentage_def py_truediv_def and_then_def Let_def)

lemma top_words_list_no_total:
  "total_words \<le> 0 \<Longrightarrow>
   top_words_list ws total_words =
     Inr (map (\<lambda>(word, count). JObj [(ascii ''word'', JStr word), (ascii ''count'', JInt count),
                                     (ascii ''percentage'', JInt 0)]) ws)"
  by (induction ws total_words rule: top_words_list.induct)
     (simp_all add: percentage_no_total and_then_def)

lemma report_no_total:
  assumes "sum_list (map snd freq) = 0"
  shows "top_words_report channel_id top_n message_limit freq =
     Inr (JObj [(ascii ''success'', JBool True),
                (ascii ''channel_id'', JStr channel_id),
                (ascii ''analysis_stats'',
                   JObj [(ascii ''total_words_analyzed'', JInt 0),
                         (ascii ''unique_words'', JInt (int (length freq))),
                         (ascii ''message_limit'', JInt message_limit)]),
                (ascii ''top_words'',
                   JList (map (\<lambda>(word, count).
                                 JObj [(ascii ''word'', JStr word), (ascii ''count'', JInt count),
                                       (ascii ''percentage'', JInt 0)])
                            (slice_to freq top_n)))])"
  using assms by (simp add: top_words_report_def Let_def top_words_list_no_total and_then_def)

text \<open>
  C6. The percentage of an entry is the \<open>int\<close> \<open>0\<close> when the total is zero, and for no
  count and total does its computation raise \<open>ZeroDivisionError\<close>: the division runs
  under the condition \<open>total_words > 0\<close> only. So a report on a frequency table whose
  counts sum to zero succeeds with every percentage \<open>0\<close>, and so does
  \<open>get_top_words_in_channel\<close> when the analysis returns such a table.
\<close>

theorem zero_total_gives_zero_percentages:
  "percentage count 0 = Inr (JInt 0) \<and>
   percentage count total_words \<noteq> Inl ZeroDivisionError \<and>
   (sum_list (map snd freq) = 0 \<longrightarrow>
    top_words_report channel_id top_n message_limit freq =
      Inr (JObj [(ascii ''success'', JBool True),
                 (ascii ''channel_id'', JStr channel_id),
                 (ascii ''analysis_stats'',
                    JObj [(ascii ''total_words_analyzed'', JInt 0),
                          (ascii ''unique_words'', JInt (int (length freq))),
                          (ascii ''message_limit'', JInt message_limit)]),
                 (ascii ''top_words'',
                    JList (map (\<lambda>(word, count).
                                  JObj [(ascii ''word'', JStr word), (ascii ''count'', JInt count),
                                        (ascii ''percentage'', JInt 0)])
                             (slice_to freq top_n)))])) \<and>
   (fst (analyze_channel_word_frequency rt self channel_id message_limit n) = Inr freq \<and>
    sum_list (map snd freq) = 0 \<longrightarrow>
    fst (get_top_words_in_channel rt self channel_id top_n message_limit n) =
      Inr (JObj [(ascii ''success'', JBool True),
                 (ascii ''channel_id'', JStr channel_id),
                 (ascii ''analysis_stats'',
                    JObj [(ascii ''total_words_analyzed'', JInt 0),
                          (ascii ''unique_words'', JInt (int (length freq))),
                          (ascii ''message_limit'', JInt message_limit)]),
                 (ascii ''top_words'',
                    JList (map (\<lambda>(word, count).
                                  JObj [(ascii ''word'', JStr word), (ascii ''count'', JInt count),
                                        (ascii ''percentage'', JInt 0)])
                             (slice_to freq top_n)))]))"
  using get_top_words_ok [of rt self channel_id message_limit n freq top_n, OF _ report_no_total]
    report_no_total [of freq channel_id top_n message_limit]
  by (simp add: percentage_no_total percentage_never_divides_by_zero)

theorem zero_total_gives_zero_percentages_witness:
  "percentage 7 0 = Inr (JInt 0) \<and>
   top_words_report (ascii ''C1'') 10 100 [(ascii ''up'', 1), (ascii ''down'', - 1)] =
     Inr (JObj [(ascii ''success'', JBool True),
                (ascii ''channel_id'', JStr (ascii ''C1'')),
                (ascii ''analysis_stats'',
                   JObj [(ascii ''total_words_analyzed'', JInt 0),
                         (ascii ''unique_words'', JInt 2),
                         (ascii ''message_limit'', JInt 100)]),
                (ascii ''top_words'',
                   JList [JObj [(ascii ''word'', JStr (ascii ''up'')), (ascii ''count'', JInt 1),
                                (ascii ''percentage'', JInt 0)],
                          JObj [(ascii ''word'', JStr (ascii ''down'')), (ascii ''count'', JInt (- 1)),
                                (ascii ''percentage'', JInt 0)]])]) \<and>
   fst (get_top_words_in_channel ascii_only a_client (ascii ''C1'') 10 100
          (answering (ok_body ''messages'' (JList [])))) =
     Inr (JObj [(ascii ''success'', JBool True),
                (ascii ''channel_id'', JStr (ascii ''C1'')),
                (ascii ''analysis_stats'',
                   JObj [(ascii ''total_words_analyzed'', JInt 0),
                         (ascii ''unique_words'', JInt 0),
                         (ascii ''message_limit'', JInt 100)]),
                (ascii ''top_words'', JList [])])"
proof -
  let ?n = "answering (ok_body ''messages'' (JList []))"
  have r: "reply ?n (sent ?n) (history_request a_client (ascii ''C1'') (min 100 100)) =
             ok_body ''messages'' (JList [])"
    by (simp add: answering_def)
  have a: "fst (analyze_channel_word_frequency ascii_only a_client (ascii ''C1'') 100 ?n) = Inr []"
    using analyze_ok [OF r, of ascii_only]
    by (simp add: word_frequency_of_def and_then_def frequency_of_nothing)
  have "percentage 7 0 = Inr (JInt 0)"
    using zero_total_gives_zero_percentages [of 7] by simp
  moreover have "top_words_report (ascii ''C1'') 10 100 [(ascii ''up'', 1), (ascii ''down'', - 1)] =
     Inr (JObj [(ascii ''success'', JBool True),
                (ascii ''channel_id'', JStr (ascii ''C1'')),
                (ascii ''analysis_stats'',
                   JObj [(ascii ''total_words_analyzed'', JInt 0),
                         (ascii ''unique_words'', JInt 2),
                         (ascii ''message_limit'', JInt 100)]),
                (ascii ''top_words'',
                   JList [JObj [(ascii ''word'', JStr (ascii ''up'')), (ascii ''count'', JInt 1),
                                (ascii ''percentage'', JInt 0)],
                          JObj [(ascii ''word'', JStr (ascii ''down'')), (ascii ''count'', JInt (- 1)),
                                (ascii ''percentage'', JInt 0)]])])"
    using zero_total_gives_zero_percentages
      [of 0 0 "[(ascii ''up'', 1), (ascii ''down'', - 1)]" "ascii ''C1''" 10 100]
    by (simp add: slice_to_def)
  moreover have "fst (get_top_words_in_channel ascii_only a_client (ascii ''C1'') 10 100 ?n) =
     Inr (JObj [(ascii ''success'', JBool True),
                (ascii ''channel_id'', JStr (ascii ''C1'')),
                (ascii ''analysis_stats'',
                   JObj [(ascii ''total_words_analyzed'', JInt 0),
                         (ascii ''unique_words'', JInt 0),
                         (ascii ''message_limit'', JInt 100)]),
                (ascii ''top_words'', JList [])])"
    using zero_total_gives_zero_percentages
      [of 0 0 "[]" "ascii ''C1''" 10 100 ascii_only a_client ?n] a
    by (simp add: slice_to_def)
  ultimately show ?thesis
    by simp
qed

section \<open>Texts and messages that count no word\<close>

lemma message_words_plain:
  "message_words rt (plain_message text) = Inr (extract_words_str rt text)"
  by (simp add: message_words_def plain_message_def and_then_def dict_get_def ascii_def
      extract_words_from_text_def extract_words_str_def)

lemma extract_words_str_none:
  assumes "\<forall>w \<in> set (words_of rt text). w \<in> stop_words \<or> length w < 2"
  shows "extract_words_str rt text = []"
  using assms by (auto simp: extract_words_str_def keep_word_def filter_empty_conv)

lemma collect_words_none:
  assumes "\<forall>text \<in> set texts. \<forall>w \<in> set (words_of rt text). w \<in> stop_words \<or> length w < 2"
  shows "collect_words rt (map plain_message texts) all_words = Inr all_words"
  using assms
proof (induction texts arbitrary: all_words)
  case Nil
  show ?case by simp
next
  case (Cons t ts)
  then have "extract_words_str rt t = []"
    by (simp add: extract_words_str_none)
  with Cons show ?case
    by (simp add: message_words_plain and_then_def)
qed

text \<open>
  C8. When every fetched message is a plain human message whose text consists only of
  stop-words and of tokens shorter than two characters, the analyzer's word-frequency
  table is empty.
\<close>

theorem stop_words_only_gives_empty_table:
  assumes "reply n (sent n) (history_request self channel_id (min message_limit 100)) =
             ok_body ''messages'' (JList (map plain_message texts))"
    and "\<forall>text \<in> set texts. \<forall>w \<in> set (words_of rt text). w \<in> stop_words \<or> length w < 2"
  shows "fst (analyze_channel_word_frequency rt self channel_id message_limit n) = Inr []"
  using analyze_ok [OF assms(1), of rt] collect_words_none [OF assms(2), of "[]"]
  by (simp add: word_frequency_of_def and_then_def frequency_of_nothing)

theorem stop_words_only_gives_empty_table_witness:
  "words_of ascii_only (ascii ''The a I'') = [ascii ''the'', ascii ''a'', ascii ''i''] \<and>
   words_of ascii_only (ascii ''x, y and it'') =
     [ascii ''x'', ascii ''y'', ascii ''and'', ascii ''it''] \<and>
   fst (analyze_channel_word_frequency ascii_only a_client (ascii ''C1'') 100
          (answering (ok_body ''messages''
             (JList (map plain_message [ascii ''The a I'', ascii ''x, y and it'']))))) = Inr []"
proof -
  let ?texts = "[ascii ''The a I'', ascii ''x, y and it'']"
  let ?n = "answering (ok_body ''messages'' (JList (map plain_message ?texts)))"
  have w1: "words_of ascii_only (ascii ''The a I'') = [ascii ''the'', ascii ''a'', ascii ''i'']"
    by (simp add: words_of_def sub_other_def char_defs)
  have w2: "words_of ascii_only (ascii ''x, y and it'') =
              [ascii ''x'', ascii ''y'', ascii ''and'', ascii ''it'']"
    by (simp add: words_of_def sub_other_def char_defs)
  have r: "reply ?n (sent ?n) (history_request a_client (ascii ''C1'') (min 100 100)) =
             ok_body ''messages'' (JList (map plain_message ?texts))"
    by (simp add: answering_def)
  have h: "\<forall>text \<in> set ?texts. \<forall>w \<in> set (words_of ascii_only text).
             w \<in> stop_words \<or> length w < 2"
    by (simp add: w1 w2) (simp add: stop_words_def ascii_def)
  show ?thesis
    using stop_words_only_gives_empty_table [OF r h] w1 w2 by simp
qed

lemma message_words_skipped: "skipped m \<Longrightarrow> message_words rt (JObj m) = Inr []"
  by (auto simp: skipped_def message_words_def and_then_def dict_get_def split: option.splits)

lemma collect_words_skipped:
  "list_all skipped ms \<Longrightarrow> collect_words rt (map JObj ms) all_words = Inr all_words"
  by (induction ms arbitrary: all_words) (simp_all add: message_words_skipped and_then_def)

text \<open>
  C9. When every fetched message is one the loop skips (it has no \<open>text\<close> key, or a
  \<open>type\<close> other than \<open>message\<close>, or carries a \<open>bot_id\<close>, or carries a \<open>subtype\<close>, a key
  being carried when its value is truthy, as the code tests it), the analyzer's
  word-frequency table is empty, whatever the messages hold under \<open>text\<close>.
\<close>

theorem skipped_messages_give_empty_table:
  assumes "reply n (sent n) (history_request self channel_id (min message_limit 100)) =
             ok_body ''messages'' (JList (map JObj ms))"
    and "list_all skipped ms"
  shows "fst (analyze_channel_word_frequency rt self channel_id message_limit n) = Inr []"
  using analyze_ok [OF assms(1), of rt] collect_words_skipped [OF assms(2), of rt "[]"]
  by (simp add: word_frequency_of_def and_then_def frequency_of_nothing)

theorem skipped_messages_give_empty_table_witness:
  "fst (analyze_channel_word_frequency ascii_only a_client (ascii ''C1'') 100
          (answering (ok_body ''messages''
             (JList (map JObj
               [[(ascii ''type'', JStr (ascii ''message'')),
                 (ascii ''text'', JStr (ascii ''deploy finished'')),
                 (ascii ''bot_id'', JStr (ascii ''B042''))],
                [(ascii ''type'', JStr (ascii ''message'')),
                 (ascii ''text'', JStr (ascii ''alice joined the channel'')),
                 (ascii ''subtype'', JStr (ascii ''channel_join''))],
                [(ascii ''type'', JStr (ascii ''message'')),
                 (ascii ''user'', JStr (ascii ''U1''))],
                [(ascii ''type'', JStr (ascii ''reaction'')),
                 (ascii ''text'', JInt 5)]]))))) = Inr []"
proof -
  let ?ms = "[[(ascii ''type'', JStr (ascii ''message'')),
               (ascii ''text'', JStr (ascii ''deploy finished'')),
               (ascii ''bot_id'', JStr (ascii ''B042''))],
              [(ascii ''type'', JStr (ascii ''message'')),
               (ascii ''text'', JStr (ascii ''alice joined the channel'')),
               (ascii ''subtype'', JStr (ascii ''channel_join''))],
              [(ascii ''type'', JStr (ascii ''message'')),
               (ascii ''user'', JStr (ascii ''U1''))],
              [(ascii ''type'', JStr (ascii ''reaction'')),
               (ascii ''text'', JInt 5)]]"
  let ?n = "answering (ok_body ''messages'' (JList (map JObj ?ms)))"
  have r: "reply ?n (sent ?n) (history_request a_client (ascii ''C1'') (min 100 100)) =
             ok_body ''messages'' (JList (map JObj ?ms))"
    by (simp add: answering_def)
  have h: "list_all skipped ?ms"
    by (simp add: skipped_def dict_get_def ascii_def)
  show ?thesis
    using skipped_messages_give_empty_table [OF r h] by simp
qed

section \<open>The tool boundary\<close>

lemma structured_failure: "structured (failure rt prefix e)"
  by (simp add: structured_def failure_def ascii_def)

lemma structured_success:
  "structured (JObj ((ascii ''success'', JBool True) # rest))"
  by (simp add: structured_def)

lemma try_except_contained:
  assumes "\<And>v. body = Inr v \<Longrightarrow> structured v"
  shows "contained (try_except body (failure rt prefix), n)"
  using assms
  by (cases body) (simp_all add: contained_def try_except_def structured_failure)

lemma try_except_failure:
  "try_except (and_then (Inl e) f) (failure rt prefix) = Inr (failure rt prefix e)"
  by (simp add: try_except_def and_then_def)

lemma and_then_Inr:
  "and_then r f = Inr v \<Longrightarrow> \<exists>x. r = Inr x \<and> f x = Inr v"
  by (cases r) (simp_all add: and_then_def)

lemma send_slack_message_contained: "contained (send_slack_message rt c channel text n)"
  unfolding send_slack_message_def Let_def split_beta
  by (rule try_except_contained) (auto dest!: and_then_Inr simp: structured_success)

lemma get_slack_channels_contained: "contained (get_slack_channels rt c n)"
  unfolding get_slack_channels_def Let_def split_beta
  by (rule try_except_contained) (auto dest!: and_then_Inr simp: structured_success)

lemma get_slack_channel_history_contained:
  "contained (get_slack_channel_history rt c channel_id limit n)"
  unfolding get_slack_channel_history_def Let_def split_beta
  by (rule try_except_contained) (auto dest!: and_then_Inr simp: structured_success)

lemma send_slack_direct_message_contained:
  "contained (send_slack_direct_message rt c user_id text n)"
  unfolding send_slack_direct_message_def Let_def split_beta
  by (rule try_except_contained) (auto dest!: and_then_Inr simp: structured_success)

lemma get_slack_users_contained: "contained (get_slack_users rt c n)"
  unfolding get_slack_users_def Let_def split_beta
  by (rule try_except_contained) (auto dest!: and_then_Inr simp: structured_success)

lemma send_slack_message_failure:
  "fst (send_message rt c (JStr channel) text n) = Inl e \<Longrightarrow>
   fst (send_slack_message rt c channel text n) = Inr (failure rt send_failed_prefix e)"
  by (simp add: send_slack_message_def Let_def split_beta try_except_failure)

lemma get_slack_channels_failure:
  "fst (get_channels rt c n) = Inl e \<Longrightarrow>
   fst (get_slack_channels rt c n) = Inr (failure rt channels_failed_prefix e)"
  by (simp add: get_slack_channels_def Let_def split_beta try_except_failure)

lemma get_slack_channel_history_failure:
  "fst (get_channel_history rt c channel_id limit n) = Inl e \<Longrightarrow>
   fst (get_slack_channel_history rt c channel_id limit n) = Inr (failure rt history_failed_prefix e)"
  by (simp add: get_slack_channel_history_def Let_def split_beta try_except_failure)

lemma send_slack_direct_message_failure:
  "fst (send_direct_message rt c user_id text n) = Inl e \<Longrightarrow>
   fst (send_slack_direct_message rt c user_id text n) = Inr (failure rt dm_failed_prefix e)"
  by (simp add: send_slack_direct_message_def Let_def split_beta try_except_failure)

lemma get_slack_users_failure:
  "fst (get_users rt c n) = Inl e \<Longrightarrow>
   fst (get_slack_users rt c n) = Inr (failure rt users_failed_prefix e)"
  by (simp add: get_slack_users_def Let_def split_beta try_except_failure)


text \<open>
  C1. Each of the five tools, on every network and for every argument, returns a dict
  with a boolean \<open>success\<close> and, when that is false, a string \<open>error\<close>, and raises
  nothing. When the client call of a tool raises \<open>e\<close>, the tool returns the failure
  result whose \<open>error\<close> is the tool's prefix followed by \<open>str(e)\<close>.
\<close>

theorem tools_contain_failures:
  "contained (send_slack_message rt c channel text n) \<and>
   contained (get_slack_channels rt c n) \<and>
   contained (get_slack_channel_history rt c channel_id limit n) \<and>
   contained (send_slack_direct_message rt c user_id text n) \<and>
   contained (get_slack_users rt c n) \<and>
   (fst (send_message rt c (JStr channel) text n) = Inl e \<longrightarrow>
    fst (send_slack_message rt c channel text n) = Inr (failure rt send_failed_prefix e)) \<and>
   (fst (get_channels rt c n) = Inl e \<longrightarrow>
    fst (get_slack_channels rt c n) = Inr (failure rt channels_failed_prefix e)) \<and>
   (fst (get_channel_history rt c channel_id limit n) = Inl e \<longrightarrow>
    fst (get_slack_channel_history rt c channel_id limit n) =
      Inr (failure rt history_failed_prefix e)) \<and>
   (fst (send_direct_message rt c user_id text n) = Inl e \<longrightarrow>
    fst (send_slack_direct_message rt c user_id text n) = Inr (failure rt dm_failed_prefix e)) \<and>
   (fst (get_users rt c n) = Inl e \<longrightarrow>
    fst (get_slack_users rt c n) = Inr (failure rt users_failed_prefix e))"
  by (simp add: send_slack_message_contained get_slack_channels_contained
      get_slack_channel_history_contained send_slack_direct_message_contained
      get_slack_users_contained send_slack_message_failure get_slack_channels_failure
      get_slack_channel_history_failure send_slack_direct_message_failure
      get_slack_users_failure)

theorem tools_contain_failures_witness:
  "fst (send_slack_message ascii_only a_client (ascii ''#general'') (ascii ''hi'') offline) =
     Inr (JObj [(ascii ''success'', JBool False),
                (ascii ''error'',
                   JStr (send_failed_prefix @ http_failed_prefix @ ascii ''timeout''))]) \<and>
   fst (get_slack_users ascii_only a_client offline) =
     Inr (JObj [(ascii ''success'', JBool False),
                (ascii ''error'',
                   JStr (users_failed_prefix @ http_failed_prefix @ ascii ''timeout''))])"
proof -
  let ?e = "Exception (http_failed_prefix @ ascii ''timeout'')"
  have s: "fst (send_message ascii_only a_client (JStr (ascii ''#general'')) (ascii ''hi'') offline) =
             Inl ?e"
    by (simp add: send_message_def make_request_def Let_def offline_def answering_def)
  have u: "fst (get_users ascii_only a_client offline) = Inl ?e"
    by (simp add: get_users_def make_request_def Let_def offline_def answering_def and_then_def)
  show ?thesis
    using s u
      tools_contain_failures [of ascii_only a_client "ascii ''#general''" "ascii ''hi''" offline
        "ascii ''C1''" 10 "ascii ''U1''" ?e]
    by (simp add: failure_def)
qed

section \<open>The user listing\<close>

lemma get_users_ok:
  assumes "reply n (sent n) (users_request self) = ok_body ''members'' members"
  shows "fst (get_users rt self n) = Inr members"
  using assms
  by (simp add: get_users_def make_request_def Let_def users_request_def ok_body_def
      and_then_def dict_get_def ascii_def)

lemma user_info_record:
  assumes "user_record u"
  shows "\<exists>info. user_info u = Inr info"
proof -
  from assms obtain d where u: "u = JObj d"
    by (cases u) simp_all
  with assms obtain p where "dict_get d (ascii ''profile'') (JObj []) = JObj p"
    by (auto split: json.splits)
  with u show ?thesis
    by (simp add: user_info_def and_then_def)
qed

lemma user_loop_records:
  assumes "list_all user_record us"
  shows "\<exists>infos. user_loop us user_list = Inr (user_list @ infos) \<and>
                 map Inr infos = map user_info (filter (\<lambda>u. \<not> deleted_flag u) us)"
  using assms
proof (induction us arbitrary: user_list)
  case Nil
  show ?case by simp
next
  case (Cons u us)
  then obtain d where u: "u = JObj d"
    by (cases u) simp_all
  from Cons.prems obtain info where info: "user_info u = Inr info"
    using user_info_record [of u] by auto
  from Cons.prems have rest: "list_all user_record us"
    by simp
  show ?case
  proof (cases "deleted_flag u")
    case True
    with u Cons.IH [OF rest, of user_list] show ?thesis
      by (simp add: and_then_def)
  next
    case False
    from Cons.IH [OF rest, of "user_list @ [info]"] obtain infos where
      "user_loop us (user_list @ [info]) = Inr ((user_list @ [info]) @ infos)"
      "map Inr infos = map user_info (filter (\<lambda>u. \<not> deleted_flag u) us)"
      by blast
    with False u info show ?thesis
      by (intro exI [of _ "info # infos"]) (simp add: and_then_def)
  qed
qed

text \<open>
  C7. When the member list holds user objects, \<open>get_slack_users\<close> succeeds; its \<open>users\<close>
  are the projections of exactly the users whose \<open>deleted\<close> flag is not set, in their
  order, and \<open>total_count\<close> is the number of those users: the soft-deleted ones are
  filtered before the projection. For one deleted user among three, \<open>total_count\<close> is 2
  and the deleted user has no entry.
\<close>

theorem deleted_users_are_filtered:
  assumes "reply n (sent n) (users_request self) = ok_body ''members'' (JList us)"
    and "list_all user_record us"
  shows "(\<exists>infos.
           fst (get_slack_users rt self n) =
             Inr (JObj [(ascii ''success'', JBool True),
                        (ascii ''users'', JList infos),
                        (ascii ''total_count'',
                           JInt (int (length (filter (\<lambda>u. \<not> deleted_flag u) us))))]) \<and>
           map Inr infos = map user_info (filter (\<lambda>u. \<not> deleted_flag u) us)) \<and>
         (length us = 3 \<and> length (filter deleted_flag us) = 1 \<longrightarrow>
          length (filter (\<lambda>u. \<not> deleted_flag u) us) = 2)"
proof -
  have count: "length us = 3 \<and> length (filter deleted_flag us) = 1 \<longrightarrow>
               length (filter (\<lambda>u. \<not> deleted_flag u) us) = 2"
    using sum_length_filter_compl [of deleted_flag us] by simp
  from user_loop_records [OF assms(2), of "[]"] obtain infos where
    loop: "user_loop us [] = Inr infos"
    and infos: "map Inr infos = map user_info (filter (\<lambda>u. \<not> deleted_flag u) us)"
    by auto
  have "length (map Inr infos :: (exn + json) list) =
          length (map user_info (filter (\<lambda>u. \<not> deleted_flag u) us))"
    using infos by (rule arg_cong)
  then have "length infos = length (filter (\<lambda>u. \<not> deleted_flag u) us)"
    by simp
  with loop infos get_users_ok [OF assms(1), of rt]
  have "fst (get_slack_users rt self n) =
          Inr (JObj [(ascii ''success'', JBool True),
                     (ascii ''users'', JList infos),
                     (ascii ''total_count'',
                        JInt (int (length (filter (\<lambda>u. \<not> deleted_flag u) us))))])"
    by (simp add: get_slack_users_def Let_def split_beta try_except_def and_then_def)
  with infos count show ?thesis
    by blast
qed

theorem deleted_users_are_filtered_witness:
  "fst (get_slack_users ascii_only a_client
          (answering (ok_body ''members''
             (JList [JObj [(ascii ''id'', JStr (ascii ''U1'')),
                           (ascii ''name'', JStr (ascii ''alice'')),
                           (ascii ''profile'', JObj [(ascii ''email'', JStr (ascii ''a@x.io''))])],
                     JObj [(ascii ''id'', JStr (ascii ''U2'')),
                           (ascii ''name'', JStr (ascii ''bob'')),
                           (ascii ''deleted'', JBool True)],
                     JObj [(ascii ''id'', JStr (ascii ''U3'')),
                           (ascii ''name'', JStr (ascii ''carol'')),
                           (ascii ''is_admin'', JBool True)]])))) =
     Inr (JObj [(ascii ''success'', JBool True),
                (ascii ''users'',
                   JList [JObj [(ascii ''id'', JStr (ascii ''U1'')),
                                (ascii ''name'', JStr (ascii ''alice'')),
                                (ascii ''real_name'', JStr []),
                                (ascii ''display_name'', JStr []),
                                (ascii ''email'', JStr (ascii ''a@x.io'')),
                                (ascii ''is_bot'', JBool False),
                                (ascii ''is_admin'', JBool False)],
                          JObj [(ascii ''id'', JStr (ascii ''U3'')),
                                (ascii ''name'', JStr (ascii ''carol'')),
                                (ascii ''real_name'', JStr []),
                                (ascii ''display_name'', JStr []),
                                (ascii ''email'', JStr []),
                                (ascii ''is_bot'', JBool False),
                                (ascii ''is_admin'', JBool True)]]),
                (ascii ''total_count'', JInt 2)])"
proof -
  let ?us = "[JObj [(ascii ''id'', JStr (ascii ''U1'')),
                    (ascii ''name'', JStr (ascii ''alice'')),
                    (ascii ''profile'', JObj [(ascii ''email'', JStr (ascii ''a@x.io''))])],
              JObj [(ascii ''id'', JStr (ascii ''U2'')),
                    (ascii ''name'', JStr (ascii ''bob'')),
                    (ascii ''deleted'', JBool True)],
              JObj [(ascii ''id'', JStr (ascii ''U3'')),
                    (ascii ''name'', JStr (ascii ''carol'')),
                    (ascii ''is_admin'', JBool True)]]"
  let ?n = "answering (ok_body ''members'' (JList ?us))"
  have r: "reply ?n (sent ?n) (users_request a_client) = ok_body ''members'' (JList ?us)"
    by (simp add: answering_def)
  have h: "list_all user_record ?us"
    by (simp add: dict_get_def ascii_def)
  from deleted_users_are_filtered [OF r h, of ascii_only, THEN conjunct1] obtain infos where
    res: "fst (get_slack_users ascii_only a_client ?n) =
            Inr (JObj [(ascii ''success'', JBool True),
                       (ascii ''users'', JList infos),
                       (ascii ''total_count'',
                          JInt (int (length (filter (\<lambda>u. \<not> deleted_flag u) ?us))))])"
    and m: "map Inr infos = map user_info (filter (\<lambda>u. \<not> deleted_flag u) ?us)"
    by blast
  have d: "filter (\<lambda>u. \<not> deleted_flag u) ?us = [?us ! 0, ?us ! 2]"
    by (simp add: dict_get_def ascii_def)
  from m have "infos =
      [JObj [(ascii ''id'', JStr (ascii ''U1'')),
             (ascii ''name'', JStr (ascii ''alice'')),
             (ascii ''real_name'', JStr []),
             (ascii ''display_name'', JStr []),
             (ascii ''email'', JStr (ascii ''a@x.io'')),
             (ascii ''is_bot'', JBool False),
             (ascii ''is_admin'', JBool False)],
       JObj [(ascii ''id'', JStr (ascii ''U3'')),
             (ascii ''name'', JStr (ascii ''carol'')),
             (ascii ''real_name'', JStr []),
             (ascii ''display_name'', JStr []),
             (ascii ''email'', JStr []),
             (ascii ''is_bot'', JBool False),
             (ascii ''is_admin'', JBool True)]]"
    unfolding d by (auto simp: user_info_def and_then_def dict_get_def ascii_def)
  with res show ?thesis
    unfolding d by simp
qed

end
